theory Spec2Isabelle
  imports Main
begin

section \<open>Mermaid diagram rendering (src/utils/mermaid-init.ts)\<close>

text \<open>
  The module finds the Mermaid code blocks of a page, replaces each by a container that
  shows the rendered diagram, and renders all containers again whenever the theme
  attribute of the document root changes.

  The page (the DOM) and the render engine (the \<^verbatim>\<open>mermaid\<close> package) belong to the
  browser and to a library, not to this module. The model takes what the module reads
  from them as inputs and keeps what the module writes to them in its state:
  \<^item> an element is its object identity, a natural number;
  \<^item> what a pass reads from the page is a \<open>document\<close>: the theme attribute of the root,
    the media query for the dark colour scheme, and the results of the two
    \<^verbatim>\<open>querySelectorAll\<close> calls, in document order. A code block of the node list is
    given with the parent element and the text content that the loop finds when it
    comes to the block;
  \<^item> what the module writes (class name, attribute and \<^verbatim>\<open>innerHTML\<close> of an element, the
    \<^verbatim>\<open>replaceWith\<close> calls, the console) and the module's own variables are the fields of
    \<open>system\<close>. The string assigned to \<^verbatim>\<open>innerHTML\<close> is kept as it is; it is not parsed
    into child elements;
  \<^item> \<^verbatim>\<open>renderCount\<close> is a JavaScript number. Counting from zero in steps of one is exact
    below \<open>2^53\<close>, and the model takes the counter as a natural number;
  \<^item> a call of \<^verbatim>\<open>mermaid.render\<close> settles with the markup or with a thrown value. The
    thrown value is represented by the text that the template literal makes of it.
\<close>

subsection \<open>Data\<close>

type_synonym element = nat

datatype outcome = Fulfilled string | Rejected string

record codeBlock =
  parentElement :: "element option"
  textContent :: "string option"

record document =
  documentElement :: element
  dataset_theme :: "string option"
  prefers_color_scheme_dark :: bool
  codeBlocks :: "codeBlock list"
  mermaidElements :: "element list"

record mermaid_config =
  startOnLoad :: bool
  theme :: string
  fontFamily :: string
  securityLevel :: string

record system =
  mermaidCodeMap :: "(element \<times> string) list"
  renderCount :: nat
  config :: "mermaid_config option"
  nextElement :: element
  className :: "element \<Rightarrow> string"
  attributes :: "element \<Rightarrow> (string \<times> string) list"
  innerHTML :: "element \<Rightarrow> string"
  replaced :: "(element \<times> element) list"
  calls :: "(string \<times> string) list"
  console :: "string list"

text \<open>
  An asynchronous function is a coroutine. Between two \<^verbatim>\<open>await\<close>s it runs without
  interruption; at \<^verbatim>\<open>await mermaid.render(id, code)\<close> it is suspended, and what is left
  of it is a continuation that takes the outcome of the call and the state of the
  system at the time it is resumed. Local variables (\<^verbatim>\<open>index\<close>, \<^verbatim>\<open>container\<close>, \<^verbatim>\<open>pre\<close>,
  the node list) live in the continuation; module variables and the page are read
  again from the state on resumption.
\<close>

datatype step =
  Finished system
| Awaiting system string string "outcome \<Rightarrow> system \<Rightarrow> step"

subsection \<open>The Map of original sources\<close>

text \<open>\<^verbatim>\<open>Map.prototype.set\<close>: overwrite the value of a key that is present, keeping its
  place, append a new key at the end. \<^verbatim>\<open>Map.prototype.get\<close>: the value or undefined.\<close>

fun map_set :: "element \<Rightarrow> string \<Rightarrow> (element \<times> string) list \<Rightarrow> (element \<times> string) list" where
  "map_set k v [] = [(k, v)]"
| "map_set k v (p # ps) = (if fst p = k then (k, v) # ps else p # map_set k v ps)"

fun map_get :: "(element \<times> string) list \<Rightarrow> element \<Rightarrow> string option" where
  "map_get [] k = None"
| "map_get (p # ps) k = (if fst p = k then Some (snd p) else map_get ps k)"

subsection \<open>Numbers in template literals\<close>

definition digit :: "nat \<Rightarrow> char" where
  "digit d = char_of (48 + d)"

fun String :: "nat \<Rightarrow> string" where
  "String n = (if n < 10 then [digit n] else String (n div 10) @ [digit (n mod 10)])"

declare String.simps [simp del]

definition render_id :: "nat \<Rightarrow> nat \<Rightarrow> string" where
  "render_id count index = ''mermaid-'' @ String count @ ''-'' @ String index"

definition error_markup :: "string \<Rightarrow> string" where
  "error_markup error = ''<pre>Mermaid Error: '' @ error @ ''</pre>''"

subsection \<open>getCurrentTheme and initMermaidWithTheme\<close>

definition getCurrentTheme :: "document \<Rightarrow> string" where
  "getCurrentTheme doc =
     (case dataset_theme doc of
        Some t \<Rightarrow>
          if t = ''dark'' \<or> t = ''light'' then t
          else if prefers_color_scheme_dark doc then ''dark'' else ''light''
      | None \<Rightarrow> if prefers_color_scheme_dark doc then ''dark'' else ''light'')"

definition initMermaidWithTheme :: "string \<Rightarrow> system \<Rightarrow> system" where
  "initMermaidWithTheme t s =
     s\<lparr>config := Some \<lparr>startOnLoad = False,
                        theme = (if t = ''dark'' then ''dark'' else ''default''),
                        fontFamily = ''var(--serif)'',
                        securityLevel = ''loose''\<rparr>\<rparr>"

subsection \<open>Rendering one diagram\<close>

text \<open>The \<^verbatim>\<open>try\<close> block up to the \<^verbatim>\<open>await\<close>: the identifier is made from the current
  value of \<^verbatim>\<open>renderCount\<close> and the local index, and the engine is called.\<close>

definition call_render :: "nat \<Rightarrow> string \<Rightarrow> system \<Rightarrow> system" where
  "call_render index code s = s\<lparr>calls := calls s @ [(render_id (renderCount s) index, code)]\<rparr>"

text \<open>After the \<^verbatim>\<open>await\<close>: the markup is assigned, or the \<^verbatim>\<open>catch\<close> block logs the error
  and assigns the error placeholder.\<close>

fun show_outcome :: "string \<Rightarrow> element \<Rightarrow> outcome \<Rightarrow> system \<Rightarrow> system" where
  "show_outcome msg el (Fulfilled svg) s = s\<lparr>innerHTML := (innerHTML s)(el := svg)\<rparr>"
| "show_outcome msg el (Rejected error) s =
     s\<lparr>innerHTML := (innerHTML s)(el := error_markup error),
       console := console s @ [msg @ '' '' @ error]\<rparr>"

subsection \<open>renderMermaidDiagrams: the discovery pass\<close>

definition source_of :: "codeBlock \<Rightarrow> string" where
  "source_of codeBlock =
     (case textContent codeBlock of
        None \<Rightarrow> ''''
      | Some t \<Rightarrow> if t = '''' then '''' else t)"

definition create_container :: "nat \<Rightarrow> string \<Rightarrow> system \<Rightarrow> system" where
  "create_container index code s =
     (let container = nextElement s
      in s\<lparr>nextElement := container + 1,
           className := (className s)(container := ''mermaid''),
           attributes := (attributes s)(container := [(''data-mermaid-index'', String index)]),
           mermaidCodeMap := map_set container code (mermaidCodeMap s)\<rparr>)"

definition replaceWith :: "element \<Rightarrow> element \<Rightarrow> system \<Rightarrow> system" where
  "replaceWith pre container s = s\<lparr>replaced := replaced s @ [(pre, container)]\<rparr>"

fun discovery_loop :: "codeBlock list \<Rightarrow> nat \<Rightarrow> system \<Rightarrow> step" where
  "discovery_loop [] index s = Finished (s\<lparr>renderCount := renderCount s + 1\<rparr>)"
| "discovery_loop (codeBlock # rest) index s =
     (case parentElement codeBlock of
        None \<Rightarrow> discovery_loop rest index s
      | Some pre \<Rightarrow>
          let code = source_of codeBlock;
              container = nextElement s;
              s1 = create_container index code s
          in Awaiting (call_render index code s1) (render_id (renderCount s1) index) code
               (\<lambda>result s2.
                  discovery_loop rest (index + 1)
                    (replaceWith pre container
                       (show_outcome ''Mermaid rendering error:'' container result s2))))"

definition renderMermaidDiagrams :: "document \<Rightarrow> system \<Rightarrow> step" where
  "renderMermaidDiagrams doc s =
     (let t = getCurrentTheme doc;
          s1 = initMermaidWithTheme t s
      in discovery_loop (codeBlocks doc) 0 s1)"

subsection \<open>reRenderMermaidDiagrams: the refresh pass\<close>

fun refresh_loop :: "element list \<Rightarrow> nat \<Rightarrow> system \<Rightarrow> step" where
  "refresh_loop [] index s = Finished (s\<lparr>renderCount := renderCount s + 1\<rparr>)"
| "refresh_loop (diagram # rest) index s =
     (case map_get (mermaidCodeMap s) diagram of
        None \<Rightarrow> refresh_loop rest index s
      | Some code \<Rightarrow>
          if code = '''' then refresh_loop rest index s
          else Awaiting (call_render index code s) (render_id (renderCount s) index) code
                 (\<lambda>result s2.
                    refresh_loop rest (index + 1)
                      (show_outcome ''Mermaid re-rendering error:'' diagram result s2)))"

definition reRenderMermaidDiagrams :: "document \<Rightarrow> system \<Rightarrow> step" where
  "reRenderMermaidDiagrams doc s =
     (let t = getCurrentTheme doc;
          s1 = initMermaidWithTheme t s;
          diagrams = mermaidElements doc
      in if length diagrams = 0 then Finished s1 else refresh_loop diagrams 0 s1)"

subsection \<open>Running a pass alone\<close>

text \<open>
  The engine, when every call settles, is a function from its configuration, the
  identifier and the source to the outcome. \<open>run\<close> drives one pass to its end with
  nothing else happening in between: each suspended call is answered by the engine and
  the pass is resumed in the state it was suspended in. A call that never settles leaves
  its pass suspended for ever; that is a world, below, in which the call is not settled.
\<close>

type_synonym engine = "mermaid_config option \<Rightarrow> string \<Rightarrow> string \<Rightarrow> outcome"

primrec run :: "engine \<Rightarrow> step \<Rightarrow> system" where
  "run engine (Finished s) = s"
| "run engine (Awaiting s ident code continue) =
     run engine (continue (engine (config s) ident code) s)"

text \<open>A sequence of passes, each run to its end before the next one starts.\<close>

datatype pass = Discover document | Refresh document

fun run_pass :: "engine \<Rightarrow> pass \<Rightarrow> system \<Rightarrow> system" where
  "run_pass engine (Discover doc) s = run engine (renderMermaidDiagrams doc s)"
| "run_pass engine (Refresh doc) s = run engine (reRenderMermaidDiagrams doc s)"

definition run_passes :: "engine \<Rightarrow> pass list \<Rightarrow> system \<Rightarrow> system" where
  "run_passes engine ps s = fold (run_pass engine) ps s"

subsection \<open>Passes in flight\<close>

text \<open>
  Nothing in the module waits for a pass to end before the next one starts:
  \<^verbatim>\<open>initMermaid\<close> does not await the discovery pass, and the observer callback does not
  await the refresh pass. A \<open>world\<close> is the state of the system together with the
  passes that are suspended at a render call; each of them is resumed when the engine
  settles its call, in whatever order the calls settle. The world also holds the
  mutation observers that have been registered, in the order of their creation.
\<close>

record mutation =
  mtype :: string
  attributeName :: "string option"
  target :: element

record observation =
  observed :: element
  opt_attributes :: bool
  opt_attributeFilter :: "string list"

record world =
  sys :: system
  pending :: "(string \<times> string \<times> (outcome \<Rightarrow> system \<Rightarrow> step)) list"
  observers :: "observation list"

fun suspend :: "step \<Rightarrow> world \<Rightarrow> world" where
  "suspend (Finished s) w = w\<lparr>sys := s\<rparr>"
| "suspend (Awaiting s ident code continue) w =
     w\<lparr>sys := s, pending := pending w @ [(ident, code, continue)]\<rparr>"

definition start :: "(system \<Rightarrow> step) \<Rightarrow> world \<Rightarrow> world" where
  "start f w = suspend (f (sys w)) w"

definition settle :: "nat \<Rightarrow> outcome \<Rightarrow> world \<Rightarrow> world" where
  "settle n result w =
     (if n < length (pending w)
      then case pending w ! n of
             (ident, code, continue) \<Rightarrow>
               suspend (continue result (sys w))
                 (w\<lparr>pending := take n (pending w) @ drop (n + 1) (pending w)\<rparr>)
      else w)"

subsection \<open>observeThemeChange and initMermaid\<close>

fun observer_callback :: "mutation list \<Rightarrow> document \<Rightarrow> world \<Rightarrow> world" where
  "observer_callback [] doc w = w"
| "observer_callback (mutation # rest) doc w =
     (if mtype mutation = ''attributes'' \<and> attributeName mutation = Some ''data-theme''
      then start (reRenderMermaidDiagrams doc) w
      else observer_callback rest doc w)"

text \<open>Every call creates a new \<^verbatim>\<open>MutationObserver\<close> with the callback above and registers
  it on the document root. No observer is ever disconnected.\<close>

definition observeThemeChange :: "document \<Rightarrow> world \<Rightarrow> world" where
  "observeThemeChange doc w =
     w\<lparr>observers := observers w @ [\<lparr>observed = documentElement doc,
                                        opt_attributes = True,
                                        opt_attributeFilter = [''data-theme'']\<rparr>]\<rparr>"

definition initMermaid :: "document \<Rightarrow> world \<Rightarrow> world" where
  "initMermaid doc w = observeThemeChange doc (start (renderMermaidDiagrams doc) w)"

text \<open>
  The browser's side of a \<^verbatim>\<open>MutationObserver\<close>: of a batch of mutations, the observer
  gets a record for each attribute mutation of the observed node itself (no
  \<^verbatim>\<open>subtree\<close> option is given) whose attribute is in the filter; nothing else is
  asked for in the options. The callback of an observer is called with its records, if
  there are any; the observers are notified in the order of their creation.
\<close>

definition queued :: "observation \<Rightarrow> mutation \<Rightarrow> bool" where
  "queued ob m =
     (mtype m = ''attributes'' \<and> opt_attributes ob \<and> target m = observed ob \<and>
      (case attributeName m of None \<Rightarrow> False | Some n \<Rightarrow> n \<in> set (opt_attributeFilter ob)))"

definition deliver :: "mutation list \<Rightarrow> document \<Rightarrow> observation \<Rightarrow> world \<Rightarrow> world" where
  "deliver batch doc ob w =
     (let records = filter (queued ob) batch
      in if records = [] then w else observer_callback records doc w)"

definition notify :: "mutation list \<Rightarrow> document \<Rightarrow> world \<Rightarrow> world" where
  "notify batch doc w = fold (deliver batch doc) (observers w) w"

datatype event = Mutated "mutation list" document | Settled nat outcome

fun fire :: "event \<Rightarrow> world \<Rightarrow> world" where
  "fire (Mutated batch doc) w = notify batch doc w"
| "fire (Settled n result) w = settle n result w"

definition fires :: "event list \<Rightarrow> world \<Rightarrow> world" where
  "fires es w = fold fire es w"

subsection \<open>Notions used in the statements\<close>



text \<open>What a container shows for an outcome of the engine.\<close>

fun markup_of :: "outcome \<Rightarrow> string" where
  "markup_of (Fulfilled svg) = svg"
| "markup_of (Rejected error) = error_markup error"

text \<open>The configuration that a pass gives to the engine for a theme.\<close>

definition config_for :: "string \<Rightarrow> mermaid_config option" where
  "config_for t = Some \<lparr>startOnLoad = False,
                        theme = (if t = ''dark'' then ''dark'' else ''default''),
                        fontFamily = ''var(--serif)'',
                        securityLevel = ''loose''\<rparr>"

text \<open>The code blocks that the discovery pass does not skip, and the elements that the
  refresh pass does not skip.\<close>

definition wrapped :: "codeBlock list \<Rightarrow> codeBlock list" where
  "wrapped bs = filter (\<lambda>b. parentElement b \<noteq> None) bs"

definition registered :: "(element \<times> string) list \<Rightarrow> element \<Rightarrow> bool" where
  "registered m d = (case map_get m d of None \<Rightarrow> False | Some code \<Rightarrow> code \<noteq> '''')"

definition rendered :: "(element \<times> string) list \<Rightarrow> element list \<Rightarrow> element list" where
  "rendered m ds = filter (registered m) ds"

text \<open>One turn of each loop, with the engine's answer.\<close>

definition discovery_item :: "engine \<Rightarrow> element \<Rightarrow> codeBlock \<Rightarrow> nat \<Rightarrow> system \<Rightarrow> system" where
  "discovery_item engine pre b index s =
     (let s1 = create_container index (source_of b) s;
          s2 = call_render index (source_of b) s1
      in replaceWith pre (nextElement s)
           (show_outcome ''Mermaid rendering error:'' (nextElement s)
              (engine (config s2) (render_id (renderCount s1) index) (source_of b)) s2))"

definition refresh_item :: "engine \<Rightarrow> element \<Rightarrow> string \<Rightarrow> nat \<Rightarrow> system \<Rightarrow> system" where
  "refresh_item engine d code index s =
     (let s1 = call_render index code s
      in show_outcome ''Mermaid re-rendering error:'' d
           (engine (config s1) (render_id (renderCount s) index) code) s1)"

text \<open>The source that the Map holds for an element, empty when it holds none.\<close>

definition source_in :: "(element \<times> string) list \<Rightarrow> element \<Rightarrow> string" where
  "source_in m d = (case map_get m d of None \<Rightarrow> '''' | Some code \<Rightarrow> code)"

subsection \<open>Notions used in the proofs\<close>

text \<open>Reading a decimal numeral back.\<close>

definition parse :: "string \<Rightarrow> nat" where
  "parse cs = foldl (\<lambda>a c. 10 * a + (of_char c - 48)) 0 cs"

text \<open>Every key of the Map is an element that has been created already.\<close>

definition allocated :: "system \<Rightarrow> bool" where
  "allocated s = (\<forall>k \<in> fst ` set (mermaidCodeMap s). k < nextElement s)"

text \<open>The number of diagrams that a pass, run alone, gives to the engine, and whether
  the pass returns before its loop.\<close>

fun items :: "pass \<Rightarrow> system \<Rightarrow> nat" where
  "items (Discover doc) s = length (wrapped (codeBlocks doc))"
| "items (Refresh doc) s = length (rendered (mermaidCodeMap s) (mermaidElements doc))"

fun returns_early :: "pass \<Rightarrow> bool" where
  "returns_early (Discover doc) = False"
| "returns_early (Refresh doc) = (mermaidElements doc = [])"

text \<open>The identifiers given to the engine so far are distinct, and each was made from a
  value of the counter below the present one.\<close>

definition consistent :: "system \<Rightarrow> bool" where
  "consistent s =
     (distinct (map fst (calls s)) \<and>
      (\<forall>c \<in> set (calls s). \<exists>a b. fst c = render_id a b \<and> a < renderCount s))"

text \<open>A pass that starts in a world, and whose calls settle one after the other with
  the given outcomes while nothing else happens.\<close>

definition answered :: "outcome list \<Rightarrow> step \<Rightarrow> world \<Rightarrow> world" where
  "answered outs st w = fires (map (Settled 0) outs) (suspend st w)"

text \<open>The answers of the engine to the calls of a pass that runs alone, in order.\<close>

primrec answers :: "engine \<Rightarrow> step \<Rightarrow> outcome list" where
  "answers engine (Finished s) = []"
| "answers engine (Awaiting s ident code continue) =
     engine (config s) ident code # answers engine (continue (engine (config s) ident code) s)"


subsection \<open>A page, an engine and documents to try the statements on\<close>

text \<open>The state when the module is loaded, on a page whose own elements have numbers
  below 100.\<close>

definition fresh_page :: system where
  "fresh_page =
     \<lparr>mermaidCodeMap = [], renderCount = 0, config = None, nextElement = 100,
      className = (\<lambda>el. ''''), attributes = (\<lambda>el. []), innerHTML = (\<lambda>el. ''''),
      replaced = [], calls = [], console = []\<rparr>"

text \<open>An engine that rejects the source \<open>bad\<close> and otherwise returns markup made of the
  configured theme, the source and, at the end, the identifier.\<close>

definition sample_engine :: engine where
  "sample_engine cfg ident code =
     (if code = ''bad'' then Rejected ''Parse error''
      else Fulfilled ((case cfg of None \<Rightarrow> ''default'' | Some c \<Rightarrow> theme c)
                      @ '':'' @ code @ ''#'' @ ident))"

definition sample_erase :: "string \<Rightarrow> string" where
  "sample_erase markup = takeWhile (\<lambda>c. c \<noteq> CHR ''#'') markup"

text \<open>A page with one diagram, no theme attribute and a light colour scheme.\<close>

definition scenario_document :: document where
  "scenario_document =
     \<lparr>documentElement = 0, dataset_theme = None, prefers_color_scheme_dark = False,
      codeBlocks = [\<lparr>parentElement = Some 10, textContent = Some ''graph TD; A-->B;''\<rparr>],
      mermaidElements = []\<rparr>"

text \<open>A page with three diagrams, the second of which the engine rejects, and the same
  page after the discovery pass has put the containers 100, 101 and 102 in the place of
  the three blocks.\<close>

definition sample_document :: document where
  "sample_document =
     \<lparr>documentElement = 0, dataset_theme = None, prefers_color_scheme_dark = False,
      codeBlocks = [\<lparr>parentElement = Some 10, textContent = Some ''graph TD; A-->B;''\<rparr>,
                    \<lparr>parentElement = Some 20, textContent = Some ''bad''\<rparr>,
                    \<lparr>parentElement = Some 30, textContent = Some ''graph LR; C-->D;''\<rparr>],
      mermaidElements = []\<rparr>"

definition sample_rendered :: document where
  "sample_rendered = sample_document\<lparr>codeBlocks := [], mermaidElements := [100, 101, 102]\<rparr>"

definition sample_loaded :: system where
  "sample_loaded = run sample_engine (renderMermaidDiagrams sample_document fresh_page)"

text \<open>A page with one block that has no text.\<close>

definition empty_block_document :: document where
  "empty_block_document =
     \<lparr>documentElement = 0, dataset_theme = None, prefers_color_scheme_dark = False,
      codeBlocks = [\<lparr>parentElement = Some 10, textContent = Some ''''\<rparr>],
      mermaidElements = []\<rparr>"

text \<open>The sample page after the discovery pass, with no pass in flight.\<close>

definition sample_world :: world where
  "sample_world = \<lparr>sys = sample_loaded, pending = [], observers = []\<rparr>"

text \<open>The sample page with the observer registered, a mutation of the theme attribute
  of its root, and the page as the two themes make it.\<close>

definition watching :: world where
  "watching = observeThemeChange sample_document sample_world"

definition theme_mutation :: mutation where
  "theme_mutation = \<lparr>mtype = ''attributes'', attributeName = Some ''data-theme'', target = 0\<rparr>"

definition dark_page :: document where
  "dark_page = sample_rendered\<lparr>dataset_theme := Some ''dark''\<rparr>"

definition light_page :: document where
  "light_page = sample_rendered\<lparr>dataset_theme := Some ''light''\<rparr>"

text \<open>A page with two diagrams, the first of which has no text, and the same page, with
  a dark theme, after the discovery pass has put the containers 100 and 101 in the
  place of the blocks.\<close>

definition mixed_document :: document where
  "mixed_document =
     \<lparr>documentElement = 0, dataset_theme = None, prefers_color_scheme_dark = False,
      codeBlocks = [\<lparr>parentElement = Some 10, textContent = Some ''''\<rparr>,
                    \<lparr>parentElement = Some 20, textContent = Some ''graph TD; A-->B;''\<rparr>],
      mermaidElements = []\<rparr>"

definition mixed_rendered :: document where
  "mixed_rendered =
     mixed_document\<lparr>dataset_theme := Some ''dark'', codeBlocks := [],
       mermaidElements := [100, 101]\<rparr>"

definition mixed_loaded :: system where
  "mixed_loaded = run sample_engine (renderMermaidDiagrams mixed_document fresh_page)"

section \<open>Render identifiers\<close>

lemma of_char_digit: "d < 10 \<Longrightarrow> of_char (digit d) = 48 + d"
  by (simp add: digit_def)

lemma parse_snoc: "parse (cs @ [c]) = 10 * parse cs + (of_char c - 48)"
  by (simp add: parse_def)

lemma parse_String: "parse (String n) = n"
proof (induction n rule: String.induct)
  case (1 n)
  show ?case
  proof (cases "n < 10")
    case True
    then show ?thesis
      by (subst String.simps) (simp add: parse_def of_char_digit)
  next
    case False
    with 1 have "parse (String (n div 10)) = n div 10" by simp
    with False show ?thesis
      by (subst String.simps) (simp add: parse_snoc of_char_digit)
  qed
qed

lemma String_inject: "String a = String b \<longleftrightarrow> a = b"
  by (metis parse_String)

lemma digit_not_hyphen: "d < 10 \<Longrightarrow> digit d \<noteq> CHR ''-''"
proof
  assume "d < 10" and "digit d = CHR ''-''"
  then have "of_char (digit d) = (of_char (CHR ''-'') :: nat)" by simp
  with \<open>d < 10\<close> show False by (simp add: of_char_digit)
qed

lemma hyphen_notin_String: "CHR ''-'' \<notin> set (String n)"
proof (induction n rule: String.induct)
  case (1 n)
  show ?case
  proof (cases "n < 10")
    case True
    then show ?thesis
      using digit_not_hyphen [of n] by (subst String.simps) auto
  next
    case False
    with 1 have "CHR ''-'' \<notin> set (String (n div 10))" by simp
    with False show ?thesis
      using digit_not_hyphen [of "n mod 10"] by (subst String.simps) auto
  qed
qed

lemma split_at_separator:
  "c \<notin> set xs \<Longrightarrow> c \<notin> set xs' \<Longrightarrow> xs @ c # ys = xs' @ c # ys' \<Longrightarrow> xs = xs' \<and> ys = ys'"
proof (induction xs arbitrary: xs')
  case Nil
  then show ?case by (cases xs') auto
next
  case (Cons x xs)
  then show ?case by (cases xs') auto
qed

lemma render_id_inject: "render_id a b = render_id c d \<longleftrightarrow> a = c \<and> b = d"
proof
  assume "render_id a b = render_id c d"
  then have "String a @ CHR ''-'' # String b = String c @ CHR ''-'' # String d"
    by (simp add: render_id_def)
  then have "String a = String c \<and> String b = String d"
    by (rule split_at_separator [OF hyphen_notin_String hyphen_notin_String])
  then show "a = c \<and> b = d" by (simp add: String_inject)
qed simp

section \<open>One turn of a loop\<close>

lemma innerHTML_show_outcome:
  "innerHTML (show_outcome msg el result s) = (innerHTML s)(el := markup_of result)"
  by (cases result) simp_all

lemma show_outcome_frame:
  "mermaidCodeMap (show_outcome msg el result s) = mermaidCodeMap s"
  "renderCount (show_outcome msg el result s) = renderCount s"
  "config (show_outcome msg el result s) = config s"
  "nextElement (show_outcome msg el result s) = nextElement s"
  "className (show_outcome msg el result s) = className s"
  "attributes (show_outcome msg el result s) = attributes s"
  "replaced (show_outcome msg el result s) = replaced s"
  "calls (show_outcome msg el result s) = calls s"
  by (cases result; simp)+

lemma refresh_item_fields:
  "mermaidCodeMap (refresh_item e d code i s) = mermaidCodeMap s"
  "renderCount (refresh_item e d code i s) = renderCount s"
  "config (refresh_item e d code i s) = config s"
  "nextElement (refresh_item e d code i s) = nextElement s"
  "className (refresh_item e d code i s) = className s"
  "attributes (refresh_item e d code i s) = attributes s"
  "replaced (refresh_item e d code i s) = replaced s"
  "calls (refresh_item e d code i s) = calls s @ [(render_id (renderCount s) i, code)]"
  "innerHTML (refresh_item e d code i s) =
     (innerHTML s)(d := markup_of (e (config s) (render_id (renderCount s) i) code))"
  by (simp_all add: refresh_item_def call_render_def show_outcome_frame innerHTML_show_outcome)

lemma discovery_item_fields:
  "mermaidCodeMap (discovery_item e pre b i s) = map_set (nextElement s) (source_of b) (mermaidCodeMap s)"
  "renderCount (discovery_item e pre b i s) = renderCount s"
  "config (discovery_item e pre b i s) = config s"
  "nextElement (discovery_item e pre b i s) = nextElement s + 1"
  "className (discovery_item e pre b i s) = (className s)(nextElement s := ''mermaid'')"
  "attributes (discovery_item e pre b i s) =
     (attributes s)(nextElement s := [(''data-mermaid-index'', String i)])"
  "replaced (discovery_item e pre b i s) = replaced s @ [(pre, nextElement s)]"
  "calls (discovery_item e pre b i s) = calls s @ [(render_id (renderCount s) i, source_of b)]"
  "innerHTML (discovery_item e pre b i s) =
     (innerHTML s)(nextElement s := markup_of (e (config s) (render_id (renderCount s) i) (source_of b)))"
  by (simp_all add: discovery_item_def call_render_def create_container_def replaceWith_def
      show_outcome_frame innerHTML_show_outcome Let_def)

lemma run_discovery_Nil [simp]:
  "run e (discovery_loop [] i s) = s\<lparr>renderCount := renderCount s + 1\<rparr>"
  by simp

lemma run_discovery_Cons:
  "run e (discovery_loop (b # bs) i s) =
     (case parentElement b of
        None \<Rightarrow> run e (discovery_loop bs i s)
      | Some pre \<Rightarrow> run e (discovery_loop bs (i + 1) (discovery_item e pre b i s)))"
  by (simp add: discovery_item_def Let_def split: option.split)

lemma run_refresh_Nil [simp]:
  "run e (refresh_loop [] i s) = s\<lparr>renderCount := renderCount s + 1\<rparr>"
  by simp

lemma run_refresh_Cons:
  "run e (refresh_loop (d # ds) i s) =
     (if registered (mermaidCodeMap s) d
      then run e (refresh_loop ds (i + 1) (refresh_item e d (source_in (mermaidCodeMap s) d) i s))
      else run e (refresh_loop ds i s))"
  by (simp add: refresh_item_def registered_def source_in_def Let_def split: option.split)


declare discovery_loop.simps [simp del] refresh_loop.simps [simp del]

section \<open>The loops, run alone\<close>

lemma map_set_fresh: "k \<notin> fst ` set m \<Longrightarrow> map_set k v m = m @ [(k, v)]"
  by (induction m) auto

lemma rendered_Cons:
  "rendered m (d # ds) = (if registered m d then d # rendered m ds else rendered m ds)"
  by (simp add: rendered_def)

lemma wrapped_Cons:
  "wrapped (b # bs) = (if parentElement b = None then wrapped bs else b # wrapped bs)"
  by (simp add: wrapped_def)

subsection \<open>The refresh loop\<close>

lemma refresh_loop_frame:
  "mermaidCodeMap (run e (refresh_loop ds i s)) = mermaidCodeMap s \<and>
   config (run e (refresh_loop ds i s)) = config s \<and>
   nextElement (run e (refresh_loop ds i s)) = nextElement s \<and>
   className (run e (refresh_loop ds i s)) = className s \<and>
   attributes (run e (refresh_loop ds i s)) = attributes s \<and>
   replaced (run e (refresh_loop ds i s)) = replaced s \<and>
   renderCount (run e (refresh_loop ds i s)) = renderCount s + 1"
proof (induction ds arbitrary: i s)
  case Nil
  show ?case by simp
next
  case (Cons d ds)
  show ?case
    unfolding run_refresh_Cons
    by (simp add: Cons.IH refresh_item_fields)
qed

lemma refresh_loop_calls:
  "calls (run e (refresh_loop ds i s)) =
     calls s @ map (\<lambda>(j, d). (render_id (renderCount s) j, source_in (mermaidCodeMap s) d))
                 (enumerate i (rendered (mermaidCodeMap s) ds))"
proof (induction ds arbitrary: i s)
  case Nil
  show ?case by (simp add: rendered_def)
next
  case (Cons d ds)
  show ?case
    unfolding run_refresh_Cons
    by (simp add: Cons.IH refresh_item_fields rendered_Cons)
qed

lemma refresh_loop_untouched:
  "el \<notin> set (rendered (mermaidCodeMap s) ds) \<Longrightarrow>
   innerHTML (run e (refresh_loop ds i s)) el = innerHTML s el"
proof (induction ds arbitrary: i s)
  case Nil
  show ?case by simp
next
  case (Cons d ds)
  then show ?case
    unfolding run_refresh_Cons
    by (simp add: refresh_item_fields rendered_Cons split: if_splits)
qed

lemma refresh_loop_shown:
  "distinct ds \<Longrightarrow> j < length (rendered (mermaidCodeMap s) ds) \<Longrightarrow>
   innerHTML (run e (refresh_loop ds i s)) (rendered (mermaidCodeMap s) ds ! j) =
     markup_of (e (config s) (render_id (renderCount s) (i + j))
                  (source_in (mermaidCodeMap s) (rendered (mermaidCodeMap s) ds ! j)))"
proof (induction ds arbitrary: i j s)
  case Nil
  then show ?case by (simp add: rendered_def)
next
  case (Cons d ds)
  show ?case
  proof (cases "registered (mermaidCodeMap s) d")
    case False
    with Cons show ?thesis
      unfolding run_refresh_Cons by (simp add: rendered_Cons)
  next
    case True
    let ?s' = "refresh_item e d (source_in (mermaidCodeMap s) d) i s"
    have m: "mermaidCodeMap ?s' = mermaidCodeMap s" by (simp add: refresh_item_fields)
    show ?thesis
    proof (cases j)
      case 0
      from Cons.prems have "d \<notin> set (rendered (mermaidCodeMap ?s') ds)"
        by (simp add: rendered_def)
      then have "innerHTML (run e (refresh_loop ds (i + 1) ?s')) d = innerHTML ?s' d"
        by (rule refresh_loop_untouched)
      with True 0 show ?thesis
        unfolding run_refresh_Cons by (simp add: rendered_Cons refresh_item_fields)
    next
      case (Suc k)
      with Cons.prems True have k: "k < length (rendered (mermaidCodeMap ?s') ds)"
        by (simp add: rendered_Cons m)
      from Cons.prems have "distinct ds" by simp
      from Cons.IH [OF this k] True Suc show ?thesis
        unfolding run_refresh_Cons by (simp add: rendered_Cons refresh_item_fields)
    qed
  qed
qed

subsection \<open>The discovery loop\<close>

lemma discovery_loop_frame:
  "config (run e (discovery_loop bs i s)) = config s \<and>
   renderCount (run e (discovery_loop bs i s)) = renderCount s + 1 \<and>
   nextElement (run e (discovery_loop bs i s)) = nextElement s + length (wrapped bs)"
proof (induction bs arbitrary: i s)
  case Nil
  show ?case by (simp add: wrapped_def)
next
  case (Cons b bs)
  show ?case
    unfolding run_discovery_Cons
    by (simp add: Cons.IH discovery_item_fields wrapped_Cons split: option.split)
qed

lemma discovery_loop_calls:
  "calls (run e (discovery_loop bs i s)) =
     calls s @ map (\<lambda>(j, b). (render_id (renderCount s) j, source_of b)) (enumerate i (wrapped bs))"
proof (induction bs arbitrary: i s)
  case Nil
  show ?case by (simp add: wrapped_def)
next
  case (Cons b bs)
  show ?case
    unfolding run_discovery_Cons
    by (simp add: Cons.IH discovery_item_fields wrapped_Cons split: option.split)
qed

lemma allocated_fresh: "allocated s \<Longrightarrow> nextElement s \<notin> fst ` set (mermaidCodeMap s)"
  by (auto simp: allocated_def)

lemma discovery_item_map:
  "allocated s \<Longrightarrow>
   mermaidCodeMap (discovery_item e pre b i s) = mermaidCodeMap s @ [(nextElement s, source_of b)]"
  by (simp add: discovery_item_fields map_set_fresh allocated_fresh)

lemma allocated_discovery_item: "allocated s \<Longrightarrow> allocated (discovery_item e pre b i s)"
  using discovery_item_map [of s e pre b i]
  by (auto simp: allocated_def discovery_item_fields less_Suc_eq)

lemma discovery_loop_map:
  "allocated s \<Longrightarrow>
   mermaidCodeMap (run e (discovery_loop bs i s)) =
     mermaidCodeMap s @ map (\<lambda>(el, b). (el, source_of b)) (enumerate (nextElement s) (wrapped bs))"
proof (induction bs arbitrary: i s)
  case Nil
  show ?case by (simp add: wrapped_def)
next
  case (Cons b bs)
  show ?case
  proof (cases "parentElement b")
    case None
    with Cons show ?thesis
      unfolding run_discovery_Cons by (simp add: wrapped_Cons)
  next
    case (Some pre)
    let ?s' = "discovery_item e pre b i s"
    from Cons.prems have "allocated ?s'"
      by (rule allocated_discovery_item)
    then have "mermaidCodeMap (run e (discovery_loop bs (i + 1) ?s')) =
      mermaidCodeMap ?s' @ map (\<lambda>(el, b). (el, source_of b)) (enumerate (nextElement ?s') (wrapped bs))"
      by (rule Cons.IH)
    with Some Cons.prems show ?thesis
      unfolding run_discovery_Cons
      by (simp add: wrapped_Cons discovery_item_map discovery_item_fields(4))
  qed
qed

lemma discovery_loop_old:
  "el < nextElement s \<Longrightarrow> innerHTML (run e (discovery_loop bs i s)) el = innerHTML s el"
proof (induction bs arbitrary: i s)
  case Nil
  show ?case by simp
next
  case (Cons b bs)
  then show ?case
    unfolding run_discovery_Cons
    by (simp add: discovery_item_fields split: option.split)
qed

lemma discovery_loop_shown:
  "j < length (wrapped bs) \<Longrightarrow>
   innerHTML (run e (discovery_loop bs i s)) (nextElement s + j) =
     markup_of (e (config s) (render_id (renderCount s) (i + j)) (source_of (wrapped bs ! j)))"
proof (induction bs arbitrary: i j s)
  case Nil
  then show ?case by (simp add: wrapped_def)
next
  case (Cons b bs)
  show ?case
  proof (cases "parentElement b")
    case None
    with Cons show ?thesis
      unfolding run_discovery_Cons by (simp add: wrapped_Cons)
  next
    case (Some pre)
    let ?s' = "discovery_item e pre b i s"
    show ?thesis
    proof (cases j)
      case 0
      have "innerHTML (run e (discovery_loop bs (i + 1) ?s')) (nextElement s) = innerHTML ?s' (nextElement s)"
        by (rule discovery_loop_old) (simp add: discovery_item_fields)
      with Some 0 show ?thesis
        unfolding run_discovery_Cons by (simp add: wrapped_Cons discovery_item_fields)
    next
      case (Suc k)
      with Cons.prems Some have "k < length (wrapped bs)"
        by (simp add: wrapped_Cons)
      then have "innerHTML (run e (discovery_loop bs (i + 1) ?s')) (nextElement ?s' + k) =
          markup_of (e (config ?s') (render_id (renderCount ?s') (i + 1 + k)) (source_of (wrapped bs ! k)))"
        by (rule Cons.IH)
      with Some Suc show ?thesis
        unfolding run_discovery_Cons by (simp add: wrapped_Cons discovery_item_fields)
    qed
  qed
qed

section \<open>The passes, run alone\<close>

lemma config_initMermaidWithTheme: "config (initMermaidWithTheme t s) = config_for t"
  by (simp add: initMermaidWithTheme_def config_for_def)

lemma initMermaidWithTheme_frame:
  "mermaidCodeMap (initMermaidWithTheme t s) = mermaidCodeMap s"
  "renderCount (initMermaidWithTheme t s) = renderCount s"
  "nextElement (initMermaidWithTheme t s) = nextElement s"
  "className (initMermaidWithTheme t s) = className s"
  "attributes (initMermaidWithTheme t s) = attributes s"
  "innerHTML (initMermaidWithTheme t s) = innerHTML s"
  "replaced (initMermaidWithTheme t s) = replaced s"
  "calls (initMermaidWithTheme t s) = calls s"
  by (simp_all add: initMermaidWithTheme_def)

lemma run_refresh:
  "run e (reRenderMermaidDiagrams doc s) =
     (if mermaidElements doc = [] then initMermaidWithTheme (getCurrentTheme doc) s
      else run e (refresh_loop (mermaidElements doc) 0 (initMermaidWithTheme (getCurrentTheme doc) s)))"
  by (simp add: reRenderMermaidDiagrams_def Let_def)

lemma run_discovery:
  "run e (renderMermaidDiagrams doc s) =
     run e (discovery_loop (codeBlocks doc) 0 (initMermaidWithTheme (getCurrentTheme doc) s))"
  by (simp add: renderMermaidDiagrams_def Let_def)

lemma map_get_enumerate:
  "i < length xs \<Longrightarrow>
   map_get (map (\<lambda>(el, b). (el, f b)) (enumerate n xs)) (n + i) = Some (f (xs ! i))"
proof (induction xs arbitrary: n i)
  case Nil
  then show ?case by simp
next
  case (Cons x xs)
  show ?case
  proof (cases i)
    case 0
    then show ?thesis by simp
  next
    case (Suc k)
    with Cons.prems have "k < length xs" by simp
    from Cons.IH [OF this, of "Suc n"] Suc show ?thesis by simp
  qed
qed

lemma map_enumerate_snd: "map (\<lambda>x. f (snd x)) (enumerate n xs) = map f xs"
  by (induction xs arbitrary: n) simp_all

lemma map_enumerate_fst: "map (\<lambda>x. f (fst x)) (enumerate n xs) = map f [n..<n + length xs]"
  by (induction xs arbitrary: n) (simp_all add: upt_conv_Cons del: upt_Suc)

lemma String_small:
  "String 0 = ''0''" "String (Suc 0) = ''1''" "String (Suc (Suc 0)) = ''2''"
  by code_simp+

section \<open>The sample page, evaluated\<close>

lemma render_id_small:
  "render_id 0 0 = ''mermaid-0-0''" "render_id 0 (Suc 0) = ''mermaid-0-1''"
  "render_id 0 (Suc (Suc 0)) = ''mermaid-0-2''"
  "render_id (Suc 0) 0 = ''mermaid-1-0''" "render_id (Suc 0) (Suc 0) = ''mermaid-1-1''"
  "render_id (Suc 0) (Suc (Suc 0)) = ''mermaid-1-2''"
  by (simp_all add: render_id_def String_small)

lemma sample_themes:
  "getCurrentTheme sample_document = ''light''" "getCurrentTheme sample_rendered = ''light''"
  "getCurrentTheme scenario_document = ''light''"
  "getCurrentTheme (sample_rendered\<lparr>dataset_theme := Some ''dark''\<rparr>) = ''dark''"
  by (simp_all add: getCurrentTheme_def sample_document_def sample_rendered_def scenario_document_def)

lemma sample_loaded_fields:
  "mermaidCodeMap sample_loaded =
     [(100, ''graph TD; A-->B;''), (101, ''bad''), (102, ''graph LR; C-->D;'')]"
  "renderCount sample_loaded = Suc 0"
  "config sample_loaded = config_for ''light''"
  "nextElement sample_loaded = 103"
  "calls sample_loaded = [(''mermaid-0-0'', ''graph TD; A-->B;''), (''mermaid-0-1'', ''bad''),
     (''mermaid-0-2'', ''graph LR; C-->D;'')]"
  "replaced sample_loaded = [(10, 100), (20, 101), (30, 102)]"
  by (simp_all add: sample_loaded_def run_discovery run_discovery_Cons discovery_item_fields
      initMermaidWithTheme_frame config_initMermaidWithTheme getCurrentTheme_def
      sample_document_def fresh_page_def source_of_def render_id_small)

lemma sample_loaded_markup:
  "innerHTML sample_loaded 100 = ''default:graph TD; A-->B;#mermaid-0-0''"
  "innerHTML sample_loaded 101 = ''<pre>Mermaid Error: Parse error</pre>''"
  "innerHTML sample_loaded 102 = ''default:graph LR; C-->D;#mermaid-0-2''"
  by (simp_all add: sample_loaded_def run_discovery run_discovery_Cons discovery_item_fields
      initMermaidWithTheme_frame config_initMermaidWithTheme getCurrentTheme_def
      sample_document_def fresh_page_def source_of_def render_id_small
      sample_engine_def config_for_def error_markup_def)

section \<open>Sources in the Map, and the observer\<close>

lemma set_map_set: "set (map_set k v m) \<subseteq> insert (k, v) (set m)"
  by (induction m) auto

lemma discovery_loop_nonempty:
  "\<forall>b \<in> set bs. parentElement b \<noteq> None \<longrightarrow> source_of b \<noteq> '''' \<Longrightarrow>
   \<forall>p \<in> set (mermaidCodeMap s). snd p \<noteq> '''' \<Longrightarrow>
   \<forall>p \<in> set (mermaidCodeMap (run e (discovery_loop bs i s))). snd p \<noteq> ''''"
proof (induction bs arbitrary: i s)
  case Nil
  then show ?case by simp
next
  case (Cons b bs)
  show ?case
  proof (cases "parentElement b")
    case None
    with Cons show ?thesis
      unfolding run_discovery_Cons by simp
  next
    case (Some pre)
    with Cons.prems have "source_of b \<noteq> ''''" by simp
    with Cons.prems(2) set_map_set [of "nextElement s" "source_of b" "mermaidCodeMap s"]
    have "\<forall>p \<in> set (mermaidCodeMap (discovery_item e pre b i s)). snd p \<noteq> ''''"
      by (auto simp: discovery_item_fields)
    with Cons.prems(1) Some show ?thesis
      unfolding run_discovery_Cons by (simp add: Cons.IH)
  qed
qed

lemma map_set_self: "(k, v) \<in> set (map_set k v m)"
  by (induction m) auto

lemma map_set_other: "p \<in> set m \<Longrightarrow> fst p \<noteq> k \<Longrightarrow> p \<in> set (map_set k v m)"
  by (induction m) auto

lemma discovery_loop_keeps:
  "(k, v) \<in> set (mermaidCodeMap s) \<Longrightarrow> k < nextElement s \<Longrightarrow>
   (k, v) \<in> set (mermaidCodeMap (run e (discovery_loop bs i s)))"
proof (induction bs arbitrary: i s)
  case Nil
  then show ?case by simp
next
  case (Cons b bs)
  show ?case
  proof (cases "parentElement b")
    case None
    with Cons show ?thesis
      unfolding run_discovery_Cons by simp
  next
    case (Some pre)
    from Cons.prems have "(k, v) \<in> set (mermaidCodeMap (discovery_item e pre b i s))"
      by (simp add: discovery_item_fields map_set_other)
    moreover from Cons.prems have "k < nextElement (discovery_item e pre b i s)"
      by (simp add: discovery_item_fields)
    ultimately have "(k, v) \<in> set (mermaidCodeMap (run e (discovery_loop bs (i + 1) (discovery_item e pre b i s))))"
      by (rule Cons.IH)
    with Some show ?thesis
      unfolding run_discovery_Cons by simp
  qed
qed

lemma discovery_loop_registers:
  "b \<in> set bs \<Longrightarrow> parentElement b \<noteq> None \<Longrightarrow>
   \<exists>k. (k, source_of b) \<in> set (mermaidCodeMap (run e (discovery_loop bs i s)))"
proof (induction bs arbitrary: i s)
  case Nil
  then show ?case by simp
next
  case (Cons c bs)
  show ?case
  proof (cases "parentElement c")
    case None
    with Cons.prems have "b \<in> set bs" by auto
    from Cons.IH [OF this Cons.prems(2)] None show ?thesis
      unfolding run_discovery_Cons by simp
  next
    case (Some pre)
    let ?s' = "discovery_item e pre c i s"
    show ?thesis
    proof (cases "b = c")
      case True
      have "(nextElement s, source_of c) \<in> set (mermaidCodeMap ?s')"
        by (simp add: discovery_item_fields map_set_self)
      moreover have "nextElement s < nextElement ?s'"
        by (simp add: discovery_item_fields)
      ultimately have "(nextElement s, source_of c) \<in>
          set (mermaidCodeMap (run e (discovery_loop bs (i + 1) ?s')))"
        by (rule discovery_loop_keeps)
      with Some True show ?thesis
        unfolding run_discovery_Cons by auto
    next
      case False
      with Cons.prems have "b \<in> set bs" by simp
      from Cons.IH [OF this Cons.prems(2)] Some show ?thesis
        unfolding run_discovery_Cons by simp
    qed
  qed
qed





section \<open>Two refresh passes\<close>

lemma refresh_loop_equivalent:
  assumes engine: "\<And>cfg a b a' b' code.
      erase (markup_of (e cfg (render_id a b) code)) = erase (markup_of (e cfg (render_id a' b') code))"
  shows "mermaidCodeMap s = mermaidCodeMap t \<Longrightarrow> config s = config t \<Longrightarrow>
    (\<And>el. el \<notin> set (rendered (mermaidCodeMap s) ds) \<Longrightarrow>
       erase (innerHTML s el) = erase (innerHTML t el)) \<Longrightarrow>
    erase (innerHTML (run e (refresh_loop ds i s)) el) =
    erase (innerHTML (run e (refresh_loop ds i t)) el)"
proof (induction ds arbitrary: i s t)
  case Nil
  then show ?case by (simp add: rendered_def)
next
  case (Cons d ds)
  show ?case
  proof (cases "registered (mermaidCodeMap s) d")
    case False
    with Cons.prems have "erase (innerHTML (run e (refresh_loop ds i s)) el) =
        erase (innerHTML (run e (refresh_loop ds i t)) el)"
      by (intro Cons.IH) (simp_all add: rendered_Cons)
    with False Cons.prems(1) show ?thesis
      unfolding run_refresh_Cons by simp
  next
    case True
    let ?code = "source_in (mermaidCodeMap s) d"
    let ?s' = "refresh_item e d ?code i s"
    let ?t' = "refresh_item e d ?code i t"
    have "erase (innerHTML (run e (refresh_loop ds (i + 1) ?s')) el) =
        erase (innerHTML (run e (refresh_loop ds (i + 1) ?t')) el)"
    proof (rule Cons.IH)
      show "mermaidCodeMap ?s' = mermaidCodeMap ?t'"
        using Cons.prems(1) by (simp add: refresh_item_fields)
      show "config ?s' = config ?t'"
        using Cons.prems(2) by (simp add: refresh_item_fields)
      show "erase (innerHTML ?s' x) = erase (innerHTML ?t' x)"
        if "x \<notin> set (rendered (mermaidCodeMap ?s') ds)" for x
      proof (cases "x = d")
        case True
        then show ?thesis
          using Cons.prems(2) engine by (simp add: refresh_item_fields)
      next
        case False
        with that True \<open>registered (mermaidCodeMap s) d\<close>
        have "x \<notin> set (rendered (mermaidCodeMap s) (d # ds))"
          by (simp add: rendered_Cons refresh_item_fields)
        then have "erase (innerHTML s x) = erase (innerHTML t x)"
          by (rule Cons.prems(3))
        with False show ?thesis
          by (simp add: refresh_item_fields)
      qed
    qed
    with True Cons.prems(1) show ?thesis
      unfolding run_refresh_Cons by simp
  qed
qed

lemma takeWhile_marker:
  "\<not> P c \<Longrightarrow> takeWhile P (xs @ c # ys) = takeWhile P xs"
  by (induction xs) simp_all

lemma sample_engine_erase:
  "sample_erase (markup_of (sample_engine cfg i code)) =
   sample_erase (markup_of (sample_engine cfg j code))"
proof -
  have "takeWhile (\<lambda>c. c \<noteq> CHR ''#'') ((t @ '':'' @ code) @ CHR ''#'' # x) =
      takeWhile (\<lambda>c. c \<noteq> CHR ''#'') (t @ '':'' @ code)" for t x :: string
    by (rule takeWhile_marker) simp
  then show ?thesis
    by (simp add: sample_engine_def sample_erase_def)
qed

section \<open>Passes one after another\<close>

lemma run_pass_count:
  "renderCount (run_pass e p s) = (if returns_early p then renderCount s else renderCount s + 1)"
  by (cases p)
     (simp_all add: run_refresh run_discovery refresh_loop_frame discovery_loop_frame
        initMermaidWithTheme_frame)

lemma run_pass_identifiers:
  "map fst (calls (run_pass e p s)) =
     map fst (calls s) @ map (render_id (renderCount s)) [0..<items p s]"
proof (cases p)
  case (Discover doc)
  then show ?thesis
    by (simp add: run_discovery discovery_loop_calls initMermaidWithTheme_frame
        case_prod_unfold comp_def map_enumerate_fst)
next
  case (Refresh doc)
  then show ?thesis
    by (simp add: run_refresh refresh_loop_calls initMermaidWithTheme_frame
        case_prod_unfold comp_def map_enumerate_fst rendered_def)
qed

lemma distinct_identifiers: "distinct (map (render_id a) [0..<n])"
  by (simp add: distinct_map inj_on_def render_id_inject)

lemma run_pass_consistent:
  assumes "consistent s"
  shows "consistent (run_pass e p s)"
proof -
  let ?new = "map (render_id (renderCount s)) [0..<items p s]"
  have ids: "map fst (calls (run_pass e p s)) = map fst (calls s) @ ?new"
    by (rule run_pass_identifiers)
  have old: "\<exists>a b. x = render_id a b \<and> a < renderCount s" if "x \<in> set (map fst (calls s))" for x
    using assms that by (auto simp: consistent_def)
  have disjoint: "set (map fst (calls s)) \<inter> set ?new = {}"
  proof (rule ccontr)
    assume "set (map fst (calls s)) \<inter> set ?new \<noteq> {}"
    then obtain x where x: "x \<in> set (map fst (calls s))" and "x \<in> set ?new"
      by blast
    then obtain j where "x = render_id (renderCount s) j"
      by auto
    with old [OF x] show False
      by (auto simp: render_id_inject)
  qed
  from assms have "distinct (map fst (calls s))"
    by (simp add: consistent_def)
  with disjoint have d: "distinct (map fst (calls (run_pass e p s)))"
    unfolding ids by (simp add: distinct_identifiers)
  have below: "\<exists>a b. x = render_id a b \<and> a < renderCount (run_pass e p s)"
    if "x \<in> set (map fst (calls (run_pass e p s)))" for x
  proof (cases "x \<in> set (map fst (calls s))")
    case True
    from old [OF this] show ?thesis
      by (auto simp: run_pass_count)
  next
    case False
    with that obtain j where j: "x = render_id (renderCount s) j" "j < items p s"
      unfolding ids by auto
    then have "\<not> returns_early p"
      by (cases p) (auto simp: rendered_def)
    with j show ?thesis
      by (auto simp: run_pass_count)
  qed
  from d below show ?thesis
    unfolding consistent_def by (metis (no_types, lifting) image_eqI list.set_map)
qed

lemma run_passes_consistent: "consistent s \<Longrightarrow> consistent (run_passes e ps s)"
  unfolding run_passes_def
  by (induction ps arbitrary: s) (simp_all add: run_pass_consistent)

lemma run_passes_count: "renderCount s \<le> renderCount (run_passes e ps s)"
  unfolding run_passes_def
proof (induction ps arbitrary: s)
  case Nil
  show ?case by simp
next
  case (Cons p ps)
  have "renderCount s \<le> renderCount (run_pass e p s)"
    by (simp add: run_pass_count)
  also have "\<dots> \<le> renderCount (fold (run_pass e) ps (run_pass e p s))"
    by (rule Cons.IH)
  finally show ?case by simp
qed

section \<open>Passes in flight\<close>

lemma refresh_loop_Cons:
  "refresh_loop (d # ds) i s =
     (if registered (mermaidCodeMap s) d
      then Awaiting (call_render i (source_in (mermaidCodeMap s) d) s)
             (render_id (renderCount s) i) (source_in (mermaidCodeMap s) d)
             (\<lambda>result s2. refresh_loop ds (i + 1)
                 (show_outcome ''Mermaid re-rendering error:'' d result s2))
      else refresh_loop ds i s)"
  by (simp add: refresh_loop.simps registered_def source_in_def split: option.split)

lemmas world_eval =
  fires_def notify_def deliver_def observer_callback.simps queued_def start_def settle_def
  reRenderMermaidDiagrams_def refresh_loop_Cons refresh_loop.simps(1)
  watching_def observeThemeChange_def sample_world_def theme_mutation_def
  dark_page_def light_page_def sample_rendered_def sample_document_def
  getCurrentTheme_def initMermaidWithTheme_def call_render_def
  registered_def source_in_def sample_loaded_fields Let_def

lemma answered_Finished: "answered [] (Finished s) w = w\<lparr>sys := s\<rparr>"
  by (simp add: answered_def fires_def)

lemma answered_Awaiting:
  "pending w = [] \<Longrightarrow>
   answered (result # outs) (Awaiting s ident code continue) w =
     answered outs (continue result s) (w\<lparr>sys := s\<rparr>)"
proof -
  assume "pending w = []"
  then have same: "w\<lparr>sys := s, pending := []\<rparr> = w\<lparr>sys := s\<rparr>"
    by (cases w) simp
  have "answered (result # outs) (Awaiting s ident code continue) w =
      fires (map (Settled 0) outs) (suspend (continue result s) (w\<lparr>sys := s, pending := []\<rparr>))"
    by (simp add: answered_def fires_def settle_def \<open>pending w = []\<close>)
  also have "\<dots> = answered outs (continue result s) (w\<lparr>sys := s\<rparr>)"
    by (simp only: same answered_def)
  finally show ?thesis .
qed

lemma answered_refresh_loop:
  "pending w = [] \<Longrightarrow> distinct ds \<Longrightarrow> length outs = length (rendered (mermaidCodeMap s) ds) \<Longrightarrow>
   pending (answered outs (refresh_loop ds i s) w) = [] \<and>
   (\<forall>el. el \<notin> set (rendered (mermaidCodeMap s) ds) \<longrightarrow>
      innerHTML (sys (answered outs (refresh_loop ds i s) w)) el = innerHTML s el) \<and>
   (\<forall>j < length outs.
      innerHTML (sys (answered outs (refresh_loop ds i s) w)) (rendered (mermaidCodeMap s) ds ! j) =
        markup_of (outs ! j))"
proof (induction ds arbitrary: i s outs w)
  case Nil
  then show ?case
    by (simp add: rendered_def refresh_loop.simps answered_Finished)
next
  case (Cons d ds)
  show ?case
  proof (cases "registered (mermaidCodeMap s) d")
    case False
    with Cons.prems have "length outs = length (rendered (mermaidCodeMap s) ds)" "distinct ds"
      by (simp_all add: rendered_Cons)
    from Cons.IH [OF Cons.prems(1) this(2) this(1), of i] False show ?thesis
      by (simp add: refresh_loop_Cons rendered_Cons)
  next
    case True
    with Cons.prems obtain result rest where outs: "outs = result # rest"
      by (cases outs) (simp_all add: rendered_Cons)
    let ?code = "source_in (mermaidCodeMap s) d"
    let ?s1 = "call_render i ?code s"
    let ?s2 = "show_outcome ''Mermaid re-rendering error:'' d result ?s1"
    let ?w1 = "w\<lparr>sys := ?s1\<rparr>"
    have m: "mermaidCodeMap ?s2 = mermaidCodeMap s"
      by (simp add: show_outcome_frame call_render_def)
    have step: "answered outs (refresh_loop (d # ds) i s) w = answered rest (refresh_loop ds (i + 1) ?s2) ?w1"
      using True Cons.prems(1) by (simp add: refresh_loop_Cons outs answered_Awaiting)
    from Cons.prems True have len: "length rest = length (rendered (mermaidCodeMap ?s2) ds)"
      by (simp add: rendered_Cons outs m)
    from Cons.prems have "pending ?w1 = []" "distinct ds" "d \<notin> set ds"
      by simp_all
    from Cons.IH [OF this(1) this(2) len, of "i + 1"]
    have ih: "pending (answered rest (refresh_loop ds (i + 1) ?s2) ?w1) = []"
      "\<And>el. el \<notin> set (rendered (mermaidCodeMap s) ds) \<Longrightarrow>
         innerHTML (sys (answered rest (refresh_loop ds (i + 1) ?s2) ?w1)) el = innerHTML ?s2 el"
      "\<And>j. j < length rest \<Longrightarrow>
         innerHTML (sys (answered rest (refresh_loop ds (i + 1) ?s2) ?w1))
            (rendered (mermaidCodeMap s) ds ! j) = markup_of (rest ! j)"
      by (simp_all add: m)
    have html: "innerHTML ?s2 = (innerHTML s)(d := markup_of result)"
      by (simp add: innerHTML_show_outcome call_render_def)
    from \<open>d \<notin> set ds\<close> have fresh: "d \<notin> set (rendered (mermaidCodeMap s) ds)"
      by (simp add: rendered_def)
    have shown: "innerHTML (sys (answered outs (refresh_loop (d # ds) i s) w))
            (rendered (mermaidCodeMap s) (d # ds) ! j) = markup_of (outs ! j)"
      if "j < length outs" for j
    proof (cases j)
      case 0
      with True ih(2) [OF fresh] show ?thesis
        unfolding step by (simp add: rendered_Cons outs html)
    next
      case (Suc k)
      with that True ih(3) [of k] show ?thesis
        unfolding step by (simp add: rendered_Cons outs)
    qed
    have kept: "innerHTML (sys (answered outs (refresh_loop (d # ds) i s) w)) el = innerHTML s el"
      if "el \<notin> set (rendered (mermaidCodeMap s) (d # ds))" for el
      using that True ih(2) [of el] unfolding step by (simp add: rendered_Cons html)
    from ih(1) have "pending (answered outs (refresh_loop (d # ds) i s) w) = []"
      unfolding step .
    with shown kept show ?thesis
      by simp
  qed
qed

text \<open>
  Running a pass alone is what happens in a world with no other pass in flight when the
  calls of the pass settle with the answers of the engine, one after the other.
\<close>

lemma run_is_answered:
  "pending w = [] \<Longrightarrow> answered (answers e st) st w = w\<lparr>sys := run e st\<rparr>"
proof (induction st arbitrary: w)
  case (Finished s)
  show ?case by (simp add: answered_Finished)
next
  case (Awaiting s ident code continue)
  let ?r = "e (config s) ident code"
  from Awaiting.prems have "pending (w\<lparr>sys := s\<rparr>) = []" by simp
  then have "answered (answers e (continue ?r s)) (continue ?r s) (w\<lparr>sys := s\<rparr>) =
      w\<lparr>sys := s\<rparr>\<lparr>sys := run e (continue ?r s)\<rparr>"
    by (rule Awaiting.IH [OF rangeI rangeI])
  with Awaiting.prems show ?case
    by (simp add: answered_Awaiting)
qed

text \<open>
  The sample page: \<open>initMermaid\<close> on the fresh page, followed by the answers of the
  sample engine to the three calls of the discovery pass, gives the world in which the
  observer is registered, the three containers are shown and no pass is in flight.
\<close>

lemma sample_page_loaded:
  "answered (answers sample_engine (renderMermaidDiagrams sample_document fresh_page))
     (renderMermaidDiagrams sample_document fresh_page)
     \<lparr>sys = fresh_page, pending = [], observers = []\<rparr> = sample_world"
  by (simp add: run_is_answered sample_world_def sample_loaded_def)

lemma suspend_observers: "suspend st (w\<lparr>observers := obs\<rparr>) = (suspend st w)\<lparr>observers := obs\<rparr>"
  by (cases st) simp_all

lemma settle_observers: "settle n r (w\<lparr>observers := obs\<rparr>) = (settle n r w)\<lparr>observers := obs\<rparr>"
proof (cases "n < length (pending w)")
  case False
  then show ?thesis by (simp add: settle_def)
next
  case True
  obtain ident code continue where p: "pending w ! n = (ident, code, continue)"
    by (cases "pending w ! n")
  let ?rest = "take n (pending w) @ drop (n + 1) (pending w)"
  have swap: "w\<lparr>observers := obs, pending := ?rest\<rparr> = w\<lparr>pending := ?rest, observers := obs\<rparr>"
    by (cases w) simp
  have "settle n r (w\<lparr>observers := obs\<rparr>) =
      suspend (continue r (sys w)) (w\<lparr>observers := obs, pending := ?rest\<rparr>)"
    using True p by (simp add: settle_def)
  also have "\<dots> = suspend (continue r (sys w)) (w\<lparr>pending := ?rest, observers := obs\<rparr>)"
    by (simp only: swap)
  also have "\<dots> = (suspend (continue r (sys w)) (w\<lparr>pending := ?rest\<rparr>))\<lparr>observers := obs\<rparr>"
    by (rule suspend_observers)
  also have "\<dots> = (settle n r w)\<lparr>observers := obs\<rparr>"
    using True p by (simp add: settle_def)
  finally show ?thesis .
qed

lemma fires_Settled_observers:
  "fires (map (Settled 0) outs) (w\<lparr>observers := obs\<rparr>) = (fires (map (Settled 0) outs) w)\<lparr>observers := obs\<rparr>"
  unfolding fires_def
  by (induction outs arbitrary: w) (simp_all add: settle_observers)

lemma observers_suspend: "observers (suspend st w) = observers w"
  by (cases st) simp_all

lemma sample_page_watching:
  "fires (map (Settled 0) (answers sample_engine (renderMermaidDiagrams sample_document fresh_page)))
     (initMermaid sample_document \<lparr>sys = fresh_page, pending = [], observers = []\<rparr>) = watching"
proof -
  let ?w = "\<lparr>sys = fresh_page, pending = [], observers = []\<rparr>"
  let ?st = "renderMermaidDiagrams sample_document fresh_page"
  let ?obs = "[\<lparr>observed = documentElement sample_document, opt_attributes = True,
    opt_attributeFilter = [''data-theme'']\<rparr>]"
  have "answered (answers sample_engine ?st) ?st ?w = sample_world"
    by (rule sample_page_loaded)
  then have loaded: "fires (map (Settled 0) (answers sample_engine ?st))
      (start (renderMermaidDiagrams sample_document) ?w) = sample_world"
    by (simp add: answered_def start_def)
  have "initMermaid sample_document ?w =
      (start (renderMermaidDiagrams sample_document) ?w)\<lparr>observers := ?obs\<rparr>"
    by (simp add: initMermaid_def observeThemeChange_def start_def observers_suspend)
  then have "fires (map (Settled 0) (answers sample_engine ?st)) (initMermaid sample_document ?w) =
      sample_world\<lparr>observers := ?obs\<rparr>"
    by (simp only: fires_Settled_observers loaded)
  also have "\<dots> = watching"
    by (simp add: watching_def observeThemeChange_def sample_world_def)
  finally show ?thesis .
qed

text \<open>
  A second call of \<open>initMermaid\<close> registers a second observer: from then on a mutation of
  the theme attribute starts two refresh passes.
\<close>

lemma two_observers_two_passes:
  "length (observers (observeThemeChange sample_document watching)) = 2 \<and>
   map fst (pending (fires [Mutated [theme_mutation] dark_page]
     (observeThemeChange sample_document watching))) = [''mermaid-1-0'', ''mermaid-1-0'']"
  by (simp add: world_eval render_id_small)

text \<open>
  Two mutations of the theme attribute, one right after the other, start two refresh
  passes. The second starts while the first is suspended at its first render call, before
  the first has incremented the counter: both give the identifier \<open>mermaid-1-0\<close> to the
  engine.
\<close>

lemma overlapping_passes_share_identifier:
  "map fst (calls (sys (fires [Mutated [theme_mutation] dark_page,
      Mutated [theme_mutation] light_page] watching))) =
     [''mermaid-0-0'', ''mermaid-0-1'', ''mermaid-0-2'', ''mermaid-1-0'', ''mermaid-1-0'']"
  by (simp add: world_eval render_id_small)

section \<open>What a refresh pass does\<close>



text \<open>The console only grows.\<close>

lemma console_show_outcome:
  "take (length (console s)) (console (show_outcome msg el result s)) = console s"
  by (cases result) simp_all

lemma console_length_show_outcome:
  "length (console s) \<le> length (console (show_outcome msg el result s))"
  by (cases result) simp_all

lemma refresh_item_console:
  "length (console s) \<le> length (console (refresh_item e d code i s)) \<and>
   take (length (console s)) (console (refresh_item e d code i s)) = console s"
proof -
  let ?s1 = "call_render i code s"
  let ?r = "e (config ?s1) (render_id (renderCount s) i) code"
  have "console ?s1 = console s"
    by (simp add: call_render_def)
  with console_show_outcome [of ?s1 "''Mermaid re-rendering error:''" d ?r]
    console_length_show_outcome [of ?s1 "''Mermaid re-rendering error:''" d ?r]
  show ?thesis
    by (simp add: refresh_item_def Let_def)
qed

lemma take_take_le: "n \<le> length ys \<Longrightarrow> take (length ys) zs = ys \<Longrightarrow> take n zs = take n ys"
  by (metis min.absorb1 take_take)

lemma refresh_loop_console:
  "length (console s) \<le> length (console (run e (refresh_loop ds i s))) \<and>
   take (length (console s)) (console (run e (refresh_loop ds i s))) = console s"
proof (induction ds arbitrary: i s)
  case Nil
  show ?case by simp
next
  case (Cons d ds)
  show ?case
  proof (cases "registered (mermaidCodeMap s) d")
    case False
    then show ?thesis
      unfolding run_refresh_Cons by (simp add: Cons.IH)
  next
    case True
    let ?s' = "refresh_item e d (source_in (mermaidCodeMap s) d) i s"
    let ?t = "run e (refresh_loop ds (i + 1) ?s')"
    have a: "length (console s) \<le> length (console ?s')" "take (length (console s)) (console ?s') = console s"
      using refresh_item_console [of s e d "source_in (mermaidCodeMap s) d" i] by simp_all
    have b: "length (console ?s') \<le> length (console ?t)" "take (length (console ?s')) (console ?t) = console ?s'"
      using Cons.IH [where i = "i + 1" and s = ?s'] by simp_all
    from a(1) b(2) have "take (length (console s)) (console ?t) = take (length (console s)) (console ?s')"
      by (rule take_take_le)
    with a b True show ?thesis
      unfolding run_refresh_Cons by simp
  qed
qed

text \<open>The page with an empty block, after the discovery pass and after a refresh pass
  with the dark theme.\<close>

lemma mixed_loaded_fields:
  "mermaidCodeMap mixed_loaded = [(100, ''''), (101, ''graph TD; A-->B;'')]"
  "renderCount mixed_loaded = Suc 0"
  "config mixed_loaded = config_for ''light''"
  "calls mixed_loaded = [(''mermaid-0-0'', ''''), (''mermaid-0-1'', ''graph TD; A-->B;'')]"
  "innerHTML mixed_loaded 100 = ''default:#mermaid-0-0''"
  "innerHTML mixed_loaded 101 = ''default:graph TD; A-->B;#mermaid-0-1''"
  by (simp_all add: mixed_loaded_def run_discovery run_discovery_Cons discovery_item_fields
      initMermaidWithTheme_frame config_initMermaidWithTheme getCurrentTheme_def
      mixed_document_def fresh_page_def source_of_def render_id_small
      sample_engine_def config_for_def)

lemma mixed_refreshed_fields:
  "calls (run sample_engine (reRenderMermaidDiagrams mixed_rendered mixed_loaded)) =
     [(''mermaid-0-0'', ''''), (''mermaid-0-1'', ''graph TD; A-->B;''),
      (''mermaid-1-0'', ''graph TD; A-->B;'')]"
  "innerHTML (run sample_engine (reRenderMermaidDiagrams mixed_rendered mixed_loaded)) 100 =
     ''default:#mermaid-0-0''"
  "innerHTML (run sample_engine (reRenderMermaidDiagrams mixed_rendered mixed_loaded)) 101 =
     ''dark:graph TD; A-->B;#mermaid-1-0''"
  "renderCount (run sample_engine (reRenderMermaidDiagrams mixed_rendered mixed_loaded)) = Suc (Suc 0)"
  "config (run sample_engine (reRenderMermaidDiagrams mixed_rendered mixed_loaded)) = config_for ''dark''"
  by (simp_all add: run_refresh run_refresh_Cons refresh_item_fields registered_def source_in_def
      initMermaidWithTheme_frame config_initMermaidWithTheme getCurrentTheme_def mixed_loaded_fields
      mixed_rendered_def mixed_document_def render_id_small
      sample_engine_def config_for_def)

section \<open>The claims\<close>

subsection \<open>C1: what the discovery pass registers\<close>

text \<open>
  C1: when the Map is empty at the start, as it is when the module is loaded, the
  discovery pass leaves in it exactly one entry for each code block that has a parent
  element. The containers it creates are the next elements in the order of the blocks,
  and looking a container up gives the text of its code block.
\<close>

theorem discovery_registers_each_block:
  assumes "mermaidCodeMap s = []"
  shows "length (mermaidCodeMap (run e (renderMermaidDiagrams doc s))) =
           length (wrapped (codeBlocks doc)) \<and>
         nextElement (run e (renderMermaidDiagrams doc s)) =
           nextElement s + length (wrapped (codeBlocks doc)) \<and>
         (\<forall>i < length (wrapped (codeBlocks doc)).
            map_get (mermaidCodeMap (run e (renderMermaidDiagrams doc s))) (nextElement s + i) =
              Some (source_of (wrapped (codeBlocks doc) ! i)))"
proof -
  let ?s0 = "initMermaidWithTheme (getCurrentTheme doc) s"
  from assms have "allocated ?s0"
    by (simp add: allocated_def initMermaidWithTheme_frame)
  then have "mermaidCodeMap (run e (discovery_loop (codeBlocks doc) 0 ?s0)) =
    mermaidCodeMap ?s0 @
      map (\<lambda>(el, b). (el, source_of b)) (enumerate (nextElement ?s0) (wrapped (codeBlocks doc)))"
    by (rule discovery_loop_map)
  with assms have m: "mermaidCodeMap (run e (renderMermaidDiagrams doc s)) =
      map (\<lambda>(el, b). (el, source_of b)) (enumerate (nextElement s) (wrapped (codeBlocks doc)))"
    by (simp add: run_discovery initMermaidWithTheme_frame)
  show ?thesis
    by (simp add: m map_get_enumerate)
       (simp add: run_discovery discovery_loop_frame initMermaidWithTheme_frame)
qed

theorem discovery_registers_each_block_witness:
  "mermaidCodeMap fresh_page = [] \<and>
   length (mermaidCodeMap (run sample_engine (renderMermaidDiagrams scenario_document fresh_page))) = 1 \<and>
   map_get (mermaidCodeMap (run sample_engine (renderMermaidDiagrams scenario_document fresh_page))) 100
     = Some ''graph TD; A-->B;''"
proof -
  have h: "mermaidCodeMap fresh_page = []"
    by (simp add: fresh_page_def)
  have n: "nextElement fresh_page = 100"
    by (simp add: fresh_page_def)
  from discovery_registers_each_block [OF h, of sample_engine scenario_document]
  show ?thesis
    by (simp add: h n wrapped_def scenario_document_def source_of_def)
qed

subsection \<open>C2: a failing diagram does not stop the others\<close>

text \<open>
  C2: in a pass, every diagram is given to the engine, and what its container shows
  afterwards depends on the answer to its own call only: the markup when the call is
  fulfilled, the error placeholder with the text of the error when it is rejected. This
  holds for the containers that the discovery pass creates and for the elements that a
  refresh pass renders, whatever the engine answers for the other diagrams of the pass.
\<close>

theorem failure_stays_local:
  "(\<forall>j < length (wrapped (codeBlocks doc)).
      innerHTML (run e (renderMermaidDiagrams doc s)) (nextElement s + j) =
        (case e (config_for (getCurrentTheme doc)) (render_id (renderCount s) j)
                (source_of (wrapped (codeBlocks doc) ! j)) of
           Fulfilled svg \<Rightarrow> svg
         | Rejected error \<Rightarrow> ''<pre>Mermaid Error: '' @ error @ ''</pre>'')) \<and>
   length (calls (run e (renderMermaidDiagrams doc s))) =
     length (calls s) + length (wrapped (codeBlocks doc)) \<and>
   (distinct (mermaidElements doc) \<longrightarrow>
      (\<forall>j < length (rendered (mermaidCodeMap s) (mermaidElements doc)).
         innerHTML (run e (reRenderMermaidDiagrams doc s))
             (rendered (mermaidCodeMap s) (mermaidElements doc) ! j) =
           (case e (config_for (getCurrentTheme doc)) (render_id (renderCount s) j)
                   (source_in (mermaidCodeMap s) (rendered (mermaidCodeMap s) (mermaidElements doc) ! j)) of
              Fulfilled svg \<Rightarrow> svg
            | Rejected error \<Rightarrow> ''<pre>Mermaid Error: '' @ error @ ''</pre>''))) \<and>
   length (calls (run e (reRenderMermaidDiagrams doc s))) =
     length (calls s) + length (rendered (mermaidCodeMap s) (mermaidElements doc))"
proof -
  let ?s0 = "initMermaidWithTheme (getCurrentTheme doc) s"
  have shown: "markup_of result =
      (case result of Fulfilled svg \<Rightarrow> svg
       | Rejected error \<Rightarrow> ''<pre>Mermaid Error: '' @ error @ ''</pre>'')" for result
    by (cases result) (simp_all add: error_markup_def)
  have discovery: "innerHTML (run e (renderMermaidDiagrams doc s)) (nextElement s + j) =
      markup_of (e (config_for (getCurrentTheme doc)) (render_id (renderCount s) j)
        (source_of (wrapped (codeBlocks doc) ! j)))"
    if "j < length (wrapped (codeBlocks doc))" for j
    using discovery_loop_shown [OF that, of e 0 ?s0]
    by (simp add: run_discovery initMermaidWithTheme_frame config_initMermaidWithTheme)
  have refresh: "innerHTML (run e (reRenderMermaidDiagrams doc s))
             (rendered (mermaidCodeMap s) (mermaidElements doc) ! j) =
      markup_of (e (config_for (getCurrentTheme doc)) (render_id (renderCount s) j)
        (source_in (mermaidCodeMap s) (rendered (mermaidCodeMap s) (mermaidElements doc) ! j)))"
    if d: "distinct (mermaidElements doc)"
      and j: "j < length (rendered (mermaidCodeMap s) (mermaidElements doc))" for j
  proof -
    from j have ne: "mermaidElements doc \<noteq> []"
      by (auto simp: rendered_def)
    from j have "j < length (rendered (mermaidCodeMap ?s0) (mermaidElements doc))"
      by (simp add: initMermaidWithTheme_frame)
    from refresh_loop_shown [OF d this, of e 0] ne show ?thesis
      by (simp add: run_refresh initMermaidWithTheme_frame config_initMermaidWithTheme)
  qed
  have calls_discovery: "length (calls (run e (renderMermaidDiagrams doc s))) =
     length (calls s) + length (wrapped (codeBlocks doc))"
    by (simp add: run_discovery discovery_loop_calls initMermaidWithTheme_frame)
  have calls_refresh: "length (calls (run e (reRenderMermaidDiagrams doc s))) =
     length (calls s) + length (rendered (mermaidCodeMap s) (mermaidElements doc))"
    by (simp add: run_refresh refresh_loop_calls initMermaidWithTheme_frame rendered_def)
  show ?thesis
    using discovery refresh calls_discovery calls_refresh
    by (simp add: shown)
qed

theorem failure_stays_local_witness:
  "innerHTML sample_loaded 100 = ''default:graph TD; A-->B;#mermaid-0-0'' \<and>
   innerHTML sample_loaded 101 = ''<pre>Mermaid Error: Parse error</pre>'' \<and>
   innerHTML sample_loaded 102 = ''default:graph LR; C-->D;#mermaid-0-2'' \<and>
   distinct (mermaidElements sample_rendered) \<and>
   innerHTML (run sample_engine (reRenderMermaidDiagrams sample_rendered sample_loaded)) 100
     = ''default:graph TD; A-->B;#mermaid-1-0'' \<and>
   innerHTML (run sample_engine (reRenderMermaidDiagrams sample_rendered sample_loaded)) 101
     = ''<pre>Mermaid Error: Parse error</pre>'' \<and>
   innerHTML (run sample_engine (reRenderMermaidDiagrams sample_rendered sample_loaded)) 102
     = ''default:graph LR; C-->D;#mermaid-1-2''"
proof -
  have blocks: "wrapped (codeBlocks sample_document) =
      [\<lparr>parentElement = Some 10, textContent = Some ''graph TD; A-->B;''\<rparr>,
       \<lparr>parentElement = Some 20, textContent = Some ''bad''\<rparr>,
       \<lparr>parentElement = Some 30, textContent = Some ''graph LR; C-->D;''\<rparr>]"
    by (simp add: wrapped_def sample_document_def)
  have elements: "mermaidElements sample_rendered = [100, 101, 102]"
    by (simp add: sample_rendered_def)
  have shown: "rendered [(100, ''graph TD; A-->B;''), (101, ''bad''), (102, ''graph LR; C-->D;'')]
      [100, 101, 102] = [100, 101, 102]"
    by (simp add: rendered_def registered_def)
  have start: "nextElement fresh_page = 100" "renderCount fresh_page = 0"
    by (simp_all add: fresh_page_def)
  from failure_stays_local [of sample_document sample_engine fresh_page]
  have first: "innerHTML sample_loaded 100 = ''default:graph TD; A-->B;#mermaid-0-0'' \<and>
      innerHTML sample_loaded 101 = ''<pre>Mermaid Error: Parse error</pre>'' \<and>
      innerHTML sample_loaded 102 = ''default:graph LR; C-->D;#mermaid-0-2''"
    by (simp add: blocks start sample_themes All_less_Suc source_of_def sample_engine_def
        config_for_def render_id_small sample_loaded_def)
  from failure_stays_local [of sample_rendered sample_engine sample_loaded]
  have second: "innerHTML (run sample_engine (reRenderMermaidDiagrams sample_rendered sample_loaded)) 100
     = ''default:graph TD; A-->B;#mermaid-1-0'' \<and>
   innerHTML (run sample_engine (reRenderMermaidDiagrams sample_rendered sample_loaded)) 101
     = ''<pre>Mermaid Error: Parse error</pre>'' \<and>
   innerHTML (run sample_engine (reRenderMermaidDiagrams sample_rendered sample_loaded)) 102
     = ''default:graph LR; C-->D;#mermaid-1-2''"
    by (simp add: elements shown sample_themes All_less_Suc source_in_def sample_engine_def
        config_for_def render_id_small sample_loaded_fields)
  from first second show ?thesis
    by (simp add: elements)
qed

subsection \<open>C3: passes that overlap\<close>

text \<open>
  C3, as the specification states it: when passes are requested while an earlier pass is
  suspended at a render call, only the output of the pass requested last is shown
  afterwards, and a late result of a superseded pass is discarded without a change of
  the page.

  The code has no token and no queue: a pass that is resumed assigns its result to its
  element, whatever has been requested in between. On the sample page, the theme
  attribute changes twice: pass A is requested, then pass B, and both wait for their
  first call. The calls settle in this order: the first call of A (its result arrives
  after B has been requested, and the first container shows it), the first call of B,
  the second call of A, the second call of B, the third call of B, the third call of A.
  Then both passes have ended, the first container shows the result of B and the third
  container the result of A.
\<close>

theorem late_result_is_shown:
  "pending (fires [Mutated [theme_mutation] dark_page, Mutated [theme_mutation] light_page,
      Settled 0 (Fulfilled ''A-0''), Settled 0 (Fulfilled ''B-0''),
      Settled 0 (Rejected ''Parse error''), Settled 0 (Rejected ''Parse error''),
      Settled 1 (Fulfilled ''B-2''), Settled 0 (Fulfilled ''A-2'')] watching) = [] \<and>
   innerHTML (sys (fires [Mutated [theme_mutation] dark_page, Mutated [theme_mutation] light_page,
      Settled 0 (Fulfilled ''A-0''), Settled 0 (Fulfilled ''B-0''),
      Settled 0 (Rejected ''Parse error''), Settled 0 (Rejected ''Parse error''),
      Settled 1 (Fulfilled ''B-2''), Settled 0 (Fulfilled ''A-2'')] watching)) 100 = ''B-0'' \<and>
   innerHTML (sys (fires [Mutated [theme_mutation] dark_page, Mutated [theme_mutation] light_page,
      Settled 0 (Fulfilled ''A-0''), Settled 0 (Fulfilled ''B-0''),
      Settled 0 (Rejected ''Parse error''), Settled 0 (Rejected ''Parse error''),
      Settled 1 (Fulfilled ''B-2''), Settled 0 (Fulfilled ''A-2'')] watching)) 102 = ''A-2'' \<and>
   innerHTML (sys (fires [Mutated [theme_mutation] dark_page, Mutated [theme_mutation] light_page,
      Settled 0 (Fulfilled ''A-0'')] watching)) 100 = ''A-0''"
  by (simp add: world_eval)

text \<open>
  C3, amended: when a refresh pass is requested while no pass is in flight, and its
  render calls settle one after the other before anything else happens, then afterwards
  no pass is in flight, every element that the pass renders (an element of class
  \<open>mermaid\<close> with a non-empty source in the Map) shows the outcome of this pass for it,
  and every other element shows what it showed before the pass. In particular, a
  container that is registered with an empty source keeps the markup of the discovery
  pass. The code does not discard the results of a pass that a later request has
  superseded.
\<close>

theorem pass_alone_is_shown:
  assumes "pending w = []"
    and "distinct (mermaidElements doc)"
    and "length outs = length (rendered (mermaidCodeMap (sys w)) (mermaidElements doc))"
  shows "pending (fires (map (Settled 0) outs) (start (reRenderMermaidDiagrams doc) w)) = [] \<and>
    (\<forall>j < length outs.
       innerHTML (sys (fires (map (Settled 0) outs) (start (reRenderMermaidDiagrams doc) w)))
           (rendered (mermaidCodeMap (sys w)) (mermaidElements doc) ! j) =
         markup_of (outs ! j)) \<and>
    (\<forall>el. el \<notin> set (rendered (mermaidCodeMap (sys w)) (mermaidElements doc)) \<longrightarrow>
       innerHTML (sys (fires (map (Settled 0) outs) (start (reRenderMermaidDiagrams doc) w))) el =
         innerHTML (sys w) el)"
proof (cases "mermaidElements doc = []")
  case True
  with assms show ?thesis
    by (simp add: rendered_def start_def reRenderMermaidDiagrams_def fires_def
        initMermaidWithTheme_frame)
next
  case False
  let ?s0 = "initMermaidWithTheme (getCurrentTheme doc) (sys w)"
  have "fires (map (Settled 0) outs) (start (reRenderMermaidDiagrams doc) w) =
      answered outs (refresh_loop (mermaidElements doc) 0 ?s0) w"
    using False by (simp add: start_def reRenderMermaidDiagrams_def answered_def Let_def)
  moreover from assms(3)
  have "length outs = length (rendered (mermaidCodeMap ?s0) (mermaidElements doc))"
    by (simp add: initMermaidWithTheme_frame)
  from answered_refresh_loop [OF assms(1,2) this, of 0]
  have "pending (answered outs (refresh_loop (mermaidElements doc) 0 ?s0) w) = [] \<and>
    (\<forall>j < length outs.
       innerHTML (sys (answered outs (refresh_loop (mermaidElements doc) 0 ?s0) w))
           (rendered (mermaidCodeMap (sys w)) (mermaidElements doc) ! j) =
         markup_of (outs ! j)) \<and>
    (\<forall>el. el \<notin> set (rendered (mermaidCodeMap (sys w)) (mermaidElements doc)) \<longrightarrow>
       innerHTML (sys (answered outs (refresh_loop (mermaidElements doc) 0 ?s0) w)) el =
         innerHTML (sys w) el)"
    by (simp add: initMermaidWithTheme_frame)
  ultimately show ?thesis
    by simp
qed

theorem pass_alone_is_shown_witness:
  "pending watching = [] \<and>
   distinct (mermaidElements dark_page) \<and>
   pending (fires (map (Settled 0) [Fulfilled ''A-0'', Rejected ''Parse error'', Fulfilled ''A-2''])
      (start (reRenderMermaidDiagrams dark_page) watching)) = [] \<and>
   innerHTML (sys (fires (map (Settled 0) [Fulfilled ''A-0'', Rejected ''Parse error'', Fulfilled ''A-2''])
      (start (reRenderMermaidDiagrams dark_page) watching))) 100 = ''A-0'' \<and>
   innerHTML (sys (fires (map (Settled 0) [Fulfilled ''A-0'', Rejected ''Parse error'', Fulfilled ''A-2''])
      (start (reRenderMermaidDiagrams dark_page) watching))) 101 =
        ''<pre>Mermaid Error: Parse error</pre>'' \<and>
   innerHTML (sys (fires (map (Settled 0) [Fulfilled ''A-0'', Rejected ''Parse error'', Fulfilled ''A-2''])
      (start (reRenderMermaidDiagrams dark_page) watching))) 102 = ''A-2'' \<and>
   distinct (mermaidElements mixed_rendered) \<and>
   100 \<notin> set (rendered (mermaidCodeMap mixed_loaded) (mermaidElements mixed_rendered)) \<and>
   innerHTML (sys (fires (map (Settled 0) [Fulfilled ''A-1''])
      (start (reRenderMermaidDiagrams mixed_rendered)
         \<lparr>sys = mixed_loaded, pending = [], observers = []\<rparr>))) 101 = ''A-1'' \<and>
   innerHTML (sys (fires (map (Settled 0) [Fulfilled ''A-1''])
      (start (reRenderMermaidDiagrams mixed_rendered)
         \<lparr>sys = mixed_loaded, pending = [], observers = []\<rparr>))) 100 = ''default:#mermaid-0-0''"
proof -
  have idle: "pending watching = []"
    by (simp add: watching_def observeThemeChange_def sample_world_def)
  have elements: "mermaidElements dark_page = [100, 101, 102]"
    by (simp add: dark_page_def sample_rendered_def)
  have shown: "rendered (mermaidCodeMap (sys watching)) [100, 101, 102] = [100, 101, 102]"
    by (simp add: rendered_def registered_def watching_def observeThemeChange_def
        sample_world_def sample_loaded_fields)
  have d: "distinct (mermaidElements dark_page)"
    by (simp add: elements)
  have n: "length [Fulfilled ''A-0'', Rejected ''Parse error'', Fulfilled ''A-2''] =
      length (rendered (mermaidCodeMap (sys watching)) (mermaidElements dark_page))"
    by (simp add: elements shown)
  let ?v = "\<lparr>sys = mixed_loaded, pending = [], observers = []\<rparr>"
  have idle': "pending ?v = []"
    by simp
  have elements': "mermaidElements mixed_rendered = [100, 101]"
    by (simp add: mixed_rendered_def)
  have which: "rendered [(100, ''''), (101, ''graph TD; A-->B;'')] [100, 101] = [101]"
    by (simp add: rendered_def registered_def)
  have shown': "rendered (mermaidCodeMap mixed_loaded) [100, 101] = [101]"
    by (simp add: which mixed_loaded_fields)
  have d': "distinct (mermaidElements mixed_rendered)"
    by (simp add: elements')
  have n': "length [Fulfilled ''A-1''] =
      length (rendered (mermaidCodeMap (sys ?v)) (mermaidElements mixed_rendered))"
    by (simp add: elements' shown')
  from pass_alone_is_shown [OF idle d n]
  have first: "pending (fires (map (Settled 0) [Fulfilled ''A-0'', Rejected ''Parse error'', Fulfilled ''A-2''])
      (start (reRenderMermaidDiagrams dark_page) watching)) = [] \<and>
   innerHTML (sys (fires (map (Settled 0) [Fulfilled ''A-0'', Rejected ''Parse error'', Fulfilled ''A-2''])
      (start (reRenderMermaidDiagrams dark_page) watching))) 100 = ''A-0'' \<and>
   innerHTML (sys (fires (map (Settled 0) [Fulfilled ''A-0'', Rejected ''Parse error'', Fulfilled ''A-2''])
      (start (reRenderMermaidDiagrams dark_page) watching))) 101 =
        ''<pre>Mermaid Error: Parse error</pre>'' \<and>
   innerHTML (sys (fires (map (Settled 0) [Fulfilled ''A-0'', Rejected ''Parse error'', Fulfilled ''A-2''])
      (start (reRenderMermaidDiagrams dark_page) watching))) 102 = ''A-2''"
    by (simp add: elements shown All_less_Suc error_markup_def)
  from pass_alone_is_shown [OF idle' d' n']
  have second: "innerHTML (sys (fires (map (Settled 0) [Fulfilled ''A-1''])
      (start (reRenderMermaidDiagrams mixed_rendered) ?v))) 101 = ''A-1'' \<and>
   innerHTML (sys (fires (map (Settled 0) [Fulfilled ''A-1''])
      (start (reRenderMermaidDiagrams mixed_rendered) ?v))) 100 = ''default:#mermaid-0-0''"
    by (simp add: elements' which mixed_loaded_fields)
  from first second idle d d' show ?thesis
    by (simp add: elements' shown')
qed

subsection \<open>C4: the counter and the identifiers\<close>

text \<open>
  C4, as the specification states it: \<open>renderCount\<close> increases, it is incremented once
  per pass, every identifier is made of the counter and of the index of the diagram in
  the pass, and no identifier is used twice.

  A refresh pass that finds no element of class \<open>mermaid\<close> returns before the
  increment: it is a pass, and the counter stays as it is.
\<close>

theorem refresh_without_diagrams_keeps_count:
  "renderCount fresh_page = 0 \<and>
   renderCount (run_pass sample_engine (Refresh scenario_document) fresh_page) = 0"
  by (simp add: run_refresh initMermaidWithTheme_frame scenario_document_def fresh_page_def)

text \<open>
  C4, amended: \<open>renderCount\<close> never decreases; a pass increments it by one when it ends,
  except a refresh pass that finds no element of class \<open>mermaid\<close>, which leaves it as
  it is. The identifiers that a pass gives to the engine are \<open>mermaid-c-i\<close>, where \<open>c\<close>
  is the counter and \<open>i\<close> counts the diagrams that the pass renders, from zero. When the
  passes run one after another, each to its end before the next starts, no identifier is
  given to the engine twice.
\<close>

theorem identifiers_of_passes:
  "renderCount (run_pass e p s) = (if returns_early p then renderCount s else renderCount s + 1) \<and>
   map fst (calls (run_pass e p s)) =
     map fst (calls s) @ map (render_id (renderCount s)) [0..<items p s] \<and>
   renderCount s \<le> renderCount (run_passes e ps s) \<and>
   (calls s = [] \<longrightarrow> distinct (map fst (calls (run_passes e ps s))))"
proof -
  have "distinct (map fst (calls (run_passes e ps s)))" if "calls s = []"
  proof -
    from that have "consistent s"
      by (simp add: consistent_def)
    then have "consistent (run_passes e ps s)"
      by (rule run_passes_consistent)
    then show ?thesis
      by (simp add: consistent_def)
  qed
  then show ?thesis
    by (simp add: run_pass_count run_pass_identifiers run_passes_count)
qed

theorem identifiers_of_passes_witness:
  "calls fresh_page = [] \<and>
   renderCount (run_pass sample_engine (Discover sample_document) fresh_page) = 1 \<and>
   map fst (calls (run_pass sample_engine (Discover sample_document) fresh_page)) =
     [''mermaid-0-0'', ''mermaid-0-1'', ''mermaid-0-2''] \<and>
   distinct (map fst (calls (run_passes sample_engine
     [Discover sample_document, Refresh sample_rendered, Refresh scenario_document,
      Refresh sample_rendered] fresh_page)))"
proof -
  have start: "calls fresh_page = []" "renderCount fresh_page = 0"
    by (simp_all add: fresh_page_def)
  have three: "length (wrapped (codeBlocks sample_document)) = Suc (Suc (Suc 0))"
    by (simp add: wrapped_def sample_document_def)
  from identifiers_of_passes [of sample_engine "Discover sample_document" fresh_page
      "[Discover sample_document, Refresh sample_rendered, Refresh scenario_document,
        Refresh sample_rendered]"]
  show ?thesis
    by (simp add: start three render_id_small)
qed

subsection \<open>C5: the current theme\<close>

text \<open>
  C5, as the specification states it: \<open>getCurrentTheme\<close> returns light or dark for every
  state of the document; the theme attribute of the root is used when it is present, and
  the colour scheme of the operating system decides otherwise.

  The code uses the attribute only when its value is \<open>dark\<close> or \<open>light\<close>. With any other
  value the attribute is present and is not used: the colour scheme decides.
\<close>

theorem getCurrentTheme_other_value:
  "dataset_theme (scenario_document\<lparr>dataset_theme := Some ''auto'', prefers_color_scheme_dark := True\<rparr>)
     = Some ''auto'' \<and>
   getCurrentTheme (scenario_document\<lparr>dataset_theme := Some ''auto'', prefers_color_scheme_dark := True\<rparr>)
     = ''dark'' \<and>
   getCurrentTheme (scenario_document\<lparr>dataset_theme := Some ''auto'', prefers_color_scheme_dark := False\<rparr>)
     = ''light''"
  by (simp add: getCurrentTheme_def scenario_document_def)

text \<open>
  C5, amended: \<open>getCurrentTheme\<close> returns \<open>dark\<close> or \<open>light\<close> for every state of the
  document. It returns the theme attribute of the root when the attribute is \<open>dark\<close> or
  \<open>light\<close>; when the attribute is absent or has any other value, it returns \<open>dark\<close> if the
  operating system prefers a dark colour scheme and \<open>light\<close> if not. It reads nothing
  else of the document and has no failure mode.
\<close>

theorem getCurrentTheme_cases:
  "(getCurrentTheme doc = ''dark'' \<or> getCurrentTheme doc = ''light'') \<and>
   getCurrentTheme doc =
     (if dataset_theme doc = Some ''dark'' then ''dark''
      else if dataset_theme doc = Some ''light'' then ''light''
      else if prefers_color_scheme_dark doc then ''dark'' else ''light'') \<and>
   getCurrentTheme (doc\<lparr>documentElement := r, codeBlocks := bs, mermaidElements := ds\<rparr>) =
     getCurrentTheme doc"
  by (auto simp: getCurrentTheme_def split: option.split)

theorem getCurrentTheme_cases_witness:
  "getCurrentTheme (scenario_document\<lparr>dataset_theme := Some ''dark''\<rparr>) = ''dark'' \<and>
   getCurrentTheme (scenario_document\<lparr>dataset_theme := Some ''light'', prefers_color_scheme_dark := True\<rparr>)
     = ''light'' \<and>
   getCurrentTheme (scenario_document\<lparr>prefers_color_scheme_dark := True\<rparr>) = ''dark'' \<and>
   getCurrentTheme scenario_document = ''light''"
  using getCurrentTheme_cases [of "scenario_document\<lparr>dataset_theme := Some ''dark''\<rparr>"]
    getCurrentTheme_cases
      [of "scenario_document\<lparr>dataset_theme := Some ''light'', prefers_color_scheme_dark := True\<rparr>"]
    getCurrentTheme_cases [of "scenario_document\<lparr>prefers_color_scheme_dark := True\<rparr>"]
    getCurrentTheme_cases [of scenario_document]
  by (simp add: scenario_document_def)

subsection \<open>C6: what the refresh pass does and leaves alone\<close>

text \<open>
  C6, as the specification states it: a refresh pass performs no discovery; it iterates
  the entries of the registry, never adds or removes an entry, never registers a block
  found in the document, and its only mutation is to overwrite the markup of existing
  containers.

  The code goes through the elements of class \<open>mermaid\<close> that it finds in the document,
  not through the Map, and skips an element whose source is missing or empty. On the
  page with an empty block, the container 100 is registered and is in the document, and
  the refresh pass neither gives it to the engine nor changes its markup. The pass also
  configures the engine again and increments the counter.
\<close>

theorem refresh_skips_registered_entry:
  "map_get (mermaidCodeMap mixed_loaded) 100 = Some '''' \<and>
   mermaidElements mixed_rendered = [100, 101] \<and>
   calls (run sample_engine (reRenderMermaidDiagrams mixed_rendered mixed_loaded)) =
     calls mixed_loaded @ [(''mermaid-1-0'', ''graph TD; A-->B;'')] \<and>
   innerHTML mixed_loaded 100 = ''default:#mermaid-0-0'' \<and>
   innerHTML (run sample_engine (reRenderMermaidDiagrams mixed_rendered mixed_loaded)) 100 =
     ''default:#mermaid-0-0'' \<and>
   innerHTML (run sample_engine (reRenderMermaidDiagrams mixed_rendered mixed_loaded)) 101 =
     ''dark:graph TD; A-->B;#mermaid-1-0'' \<and>
   renderCount mixed_loaded = 1 \<and>
   renderCount (run sample_engine (reRenderMermaidDiagrams mixed_rendered mixed_loaded)) = 2 \<and>
   config mixed_loaded = config_for ''light'' \<and>
   config (run sample_engine (reRenderMermaidDiagrams mixed_rendered mixed_loaded)) = config_for ''dark'' \<and>
   config_for ''light'' \<noteq> config_for ''dark''"
  by (simp add: mixed_loaded_fields mixed_refreshed_fields)
     (simp add: mixed_rendered_def config_for_def)

text \<open>
  C6, amended: a refresh pass performs no discovery: it never adds or removes an entry of
  the Map, registers no block, creates and replaces no element, and sets no class name
  and no attribute. It goes through the elements of class \<open>mermaid\<close> that the document
  holds and renders those that have a non-empty source in the Map, each with the source
  that the Map holds for it; an element without such a source, and an entry of the Map
  whose container is not among these elements, is skipped and keeps its markup. Besides
  the markup of the containers that it renders, the pass changes the configuration of
  the engine, the counter (incremented unless no element of class \<open>mermaid\<close> is found)
  and the record of render calls, and it may add lines to the console.
\<close>

theorem refresh_pass_effect:
  "mermaidCodeMap (run e (reRenderMermaidDiagrams doc s)) = mermaidCodeMap s \<and>
   nextElement (run e (reRenderMermaidDiagrams doc s)) = nextElement s \<and>
   className (run e (reRenderMermaidDiagrams doc s)) = className s \<and>
   attributes (run e (reRenderMermaidDiagrams doc s)) = attributes s \<and>
   replaced (run e (reRenderMermaidDiagrams doc s)) = replaced s \<and>
   set (rendered (mermaidCodeMap s) (mermaidElements doc)) =
     {d \<in> set (mermaidElements doc). \<exists>code. map_get (mermaidCodeMap s) d = Some code \<and> code \<noteq> ''''} \<and>
   (\<forall>el. el \<notin> set (rendered (mermaidCodeMap s) (mermaidElements doc)) \<longrightarrow>
      innerHTML (run e (reRenderMermaidDiagrams doc s)) el = innerHTML s el) \<and>
   (distinct (mermaidElements doc) \<longrightarrow>
      (\<forall>j < length (rendered (mermaidCodeMap s) (mermaidElements doc)).
         innerHTML (run e (reRenderMermaidDiagrams doc s))
             (rendered (mermaidCodeMap s) (mermaidElements doc) ! j) =
           markup_of (e (config_for (getCurrentTheme doc)) (render_id (renderCount s) j)
             (source_in (mermaidCodeMap s) (rendered (mermaidCodeMap s) (mermaidElements doc) ! j))))) \<and>
   calls (run e (reRenderMermaidDiagrams doc s)) =
     calls s @ map (\<lambda>(j, d). (render_id (renderCount s) j, source_in (mermaidCodeMap s) d))
                 (enumerate 0 (rendered (mermaidCodeMap s) (mermaidElements doc))) \<and>
   config (run e (reRenderMermaidDiagrams doc s)) = config_for (getCurrentTheme doc) \<and>
   renderCount (run e (reRenderMermaidDiagrams doc s)) =
     (if mermaidElements doc = [] then renderCount s else renderCount s + 1) \<and>
   take (length (console s)) (console (run e (reRenderMermaidDiagrams doc s))) = console s"
proof -
  let ?s0 = "initMermaidWithTheme (getCurrentTheme doc) s"
  let ?ds = "mermaidElements doc"
  have c0: "console ?s0 = console s"
    by (simp add: initMermaidWithTheme_def)
  have which: "set (rendered (mermaidCodeMap s) ?ds) =
     {d \<in> set ?ds. \<exists>code. map_get (mermaidCodeMap s) d = Some code \<and> code \<noteq> ''''}"
    by (auto simp: rendered_def registered_def split: option.splits)
  have kept: "innerHTML (run e (reRenderMermaidDiagrams doc s)) el = innerHTML s el"
    if "el \<notin> set (rendered (mermaidCodeMap s) ?ds)" for el
  proof -
    from that have "el \<notin> set (rendered (mermaidCodeMap ?s0) ?ds)"
      by (simp add: initMermaidWithTheme_frame)
    then have "innerHTML (run e (refresh_loop ?ds 0 ?s0)) el = innerHTML ?s0 el"
      by (rule refresh_loop_untouched)
    then show ?thesis
      by (simp add: run_refresh initMermaidWithTheme_frame)
  qed
  have shown: "innerHTML (run e (reRenderMermaidDiagrams doc s)) (rendered (mermaidCodeMap s) ?ds ! j) =
      markup_of (e (config_for (getCurrentTheme doc)) (render_id (renderCount s) j)
        (source_in (mermaidCodeMap s) (rendered (mermaidCodeMap s) ?ds ! j)))"
    if d: "distinct ?ds" and j: "j < length (rendered (mermaidCodeMap s) ?ds)" for j
  proof -
    from j have ne: "?ds \<noteq> []"
      by (auto simp: rendered_def)
    from j have "j < length (rendered (mermaidCodeMap ?s0) ?ds)"
      by (simp add: initMermaidWithTheme_frame)
    from refresh_loop_shown [OF d this, of e 0] ne show ?thesis
      by (simp add: run_refresh initMermaidWithTheme_frame config_initMermaidWithTheme)
  qed
  have calls: "calls (run e (reRenderMermaidDiagrams doc s)) =
     calls s @ map (\<lambda>(j, d). (render_id (renderCount s) j, source_in (mermaidCodeMap s) d))
                 (enumerate 0 (rendered (mermaidCodeMap s) ?ds))"
    by (simp add: run_refresh refresh_loop_calls initMermaidWithTheme_frame rendered_def)
  have console: "take (length (console s)) (console (run e (reRenderMermaidDiagrams doc s))) = console s"
    using refresh_loop_console [of ?s0 e ?ds 0]
    by (simp add: run_refresh c0)
  have rest: "mermaidCodeMap (run e (reRenderMermaidDiagrams doc s)) = mermaidCodeMap s \<and>
   nextElement (run e (reRenderMermaidDiagrams doc s)) = nextElement s \<and>
   className (run e (reRenderMermaidDiagrams doc s)) = className s \<and>
   attributes (run e (reRenderMermaidDiagrams doc s)) = attributes s \<and>
   replaced (run e (reRenderMermaidDiagrams doc s)) = replaced s \<and>
   config (run e (reRenderMermaidDiagrams doc s)) = config_for (getCurrentTheme doc) \<and>
   renderCount (run e (reRenderMermaidDiagrams doc s)) =
     (if ?ds = [] then renderCount s else renderCount s + 1)"
    by (simp add: run_refresh refresh_loop_frame initMermaidWithTheme_frame
        config_initMermaidWithTheme)
  from which kept shown calls console rest show ?thesis
    by blast
qed

theorem refresh_pass_effect_witness:
  "distinct (mermaidElements mixed_rendered) \<and>
   rendered (mermaidCodeMap mixed_loaded) (mermaidElements mixed_rendered) = [101] \<and>
   100 \<notin> set (rendered (mermaidCodeMap mixed_loaded) (mermaidElements mixed_rendered)) \<and>
   innerHTML (run sample_engine (reRenderMermaidDiagrams mixed_rendered mixed_loaded)) 100 =
     ''default:#mermaid-0-0'' \<and>
   innerHTML (run sample_engine (reRenderMermaidDiagrams mixed_rendered mixed_loaded)) 101 =
     ''dark:graph TD; A-->B;#mermaid-1-0'' \<and>
   mermaidCodeMap (run sample_engine (reRenderMermaidDiagrams mixed_rendered mixed_loaded)) =
     [(100, ''''), (101, ''graph TD; A-->B;'')]"
proof -
  have elements: "mermaidElements mixed_rendered = [100, 101]"
    by (simp add: mixed_rendered_def)
  have which: "rendered [(100, ''''), (101, ''graph TD; A-->B;'')] [100, 101] = [101]"
    by (simp add: rendered_def registered_def)
  have dark: "getCurrentTheme mixed_rendered = ''dark''"
    by (simp add: mixed_rendered_def getCurrentTheme_def)
  from refresh_pass_effect [of sample_engine mixed_rendered mixed_loaded]
  show ?thesis
    by (simp add: elements which dark mixed_loaded_fields source_in_def sample_engine_def
        config_for_def render_id_small)
qed

subsection \<open>C7: empty sources\<close>

text \<open>
  C7, as the specification states it: every entry of the Map has a source text that is
  not empty.

  The code registers the text content of the block as it is, and the empty string when
  there is none (\<^verbatim>\<open>codeBlock.textContent || ''\<close>): a block without text gets an entry
  with the empty string.
\<close>

theorem empty_block_registered:
  "map_get (mermaidCodeMap (run sample_engine (renderMermaidDiagrams empty_block_document fresh_page))) 100
     = Some ''''"
  by (simp add: run_discovery run_discovery_Cons discovery_item_fields
      initMermaidWithTheme_frame empty_block_document_def fresh_page_def source_of_def)

text \<open>
  C7, amended: the discovery pass registers the text content of each code block that has
  a parent element, as it is. So, when no entry of the Map was empty before, every entry
  of the Map is non-empty after the discovery pass if and only if every code block with
  a parent element has a text content that is not empty.
\<close>

theorem sources_nonempty_iff_blocks_are:
  assumes "\<forall>p \<in> set (mermaidCodeMap s). snd p \<noteq> ''''"
  shows "(\<forall>p \<in> set (mermaidCodeMap (run e (renderMermaidDiagrams doc s))). snd p \<noteq> '''') \<longleftrightarrow>
         (\<forall>b \<in> set (codeBlocks doc).
            parentElement b \<noteq> None \<longrightarrow> (\<exists>t. textContent b = Some t \<and> t \<noteq> ''''))"
proof
  let ?s0 = "initMermaidWithTheme (getCurrentTheme doc) s"
  assume blocks: "\<forall>b \<in> set (codeBlocks doc).
            parentElement b \<noteq> None \<longrightarrow> (\<exists>t. textContent b = Some t \<and> t \<noteq> '''')"
  then have "\<forall>b \<in> set (codeBlocks doc). parentElement b \<noteq> None \<longrightarrow> source_of b \<noteq> ''''"
    by (auto simp: source_of_def)
  moreover from assms have "\<forall>p \<in> set (mermaidCodeMap ?s0). snd p \<noteq> ''''"
    by (simp add: initMermaidWithTheme_frame)
  ultimately show "\<forall>p \<in> set (mermaidCodeMap (run e (renderMermaidDiagrams doc s))). snd p \<noteq> ''''"
    unfolding run_discovery by (rule discovery_loop_nonempty)
next
  assume entries: "\<forall>p \<in> set (mermaidCodeMap (run e (renderMermaidDiagrams doc s))). snd p \<noteq> ''''"
  show "\<forall>b \<in> set (codeBlocks doc).
            parentElement b \<noteq> None \<longrightarrow> (\<exists>t. textContent b = Some t \<and> t \<noteq> '''')"
  proof (intro ballI impI)
    fix b
    assume b: "b \<in> set (codeBlocks doc)" "parentElement b \<noteq> None"
    then obtain k where "(k, source_of b) \<in> set (mermaidCodeMap (run e (renderMermaidDiagrams doc s)))"
      unfolding run_discovery using discovery_loop_registers by blast
    with entries have "source_of b \<noteq> ''''"
      by fastforce
    then show "\<exists>t. textContent b = Some t \<and> t \<noteq> ''''"
      by (auto simp: source_of_def split: option.splits if_splits)
  qed
qed

theorem sources_nonempty_iff_blocks_are_witness:
  "parentElement (hd (codeBlocks sample_document)) \<noteq> None \<and>
   mermaidCodeMap fresh_page = [] \<and>
   set (mermaidCodeMap sample_loaded) \<noteq> {} \<and>
   snd (hd (mermaidCodeMap sample_loaded)) \<noteq> ''''"
proof -
  have blocks: "\<forall>b \<in> set (codeBlocks sample_document).
             parentElement b \<noteq> None \<longrightarrow> (\<exists>t. textContent b = Some t \<and> t \<noteq> '''')"
    by (simp add: sample_document_def)
  have before: "\<forall>p \<in> set (mermaidCodeMap fresh_page). snd p \<noteq> ''''"
    by (simp add: fresh_page_def)
  have entries: "hd (mermaidCodeMap sample_loaded) \<in> set (mermaidCodeMap sample_loaded)"
    by (simp add: sample_loaded_fields)
  from sources_nonempty_iff_blocks_are [OF before, of sample_engine sample_document] blocks entries
  have "snd (hd (mermaidCodeMap sample_loaded)) \<noteq> ''''"
    unfolding sample_loaded_def by blast
  then show ?thesis
    by (simp add: sample_document_def fresh_page_def sample_loaded_fields)
qed

subsection \<open>C8: refreshing twice\<close>

text \<open>
  C8: let the engine be deterministic up to the identifier: there is a way to erase the
  identifier from what a container shows, such that the configuration and the source
  alone determine the rest. Then a second refresh pass with the same theme and the same
  elements of class \<open>mermaid\<close>, run after the first, leaves in every element the markup
  that the first pass left, up to the identifier.
\<close>

theorem refresh_twice_equivalent:
  assumes "\<forall>cfg a b a' b' code.
      erase (markup_of (e cfg (render_id a b) code)) = erase (markup_of (e cfg (render_id a' b') code))"
    and "getCurrentTheme doc' = getCurrentTheme doc"
    and "mermaidElements doc' = mermaidElements doc"
  shows "erase (innerHTML (run e (reRenderMermaidDiagrams doc' (run e (reRenderMermaidDiagrams doc s)))) el) =
         erase (innerHTML (run e (reRenderMermaidDiagrams doc s)) el)"
proof (cases "mermaidElements doc = []")
  case True
  with assms show ?thesis
    by (simp add: run_refresh initMermaidWithTheme_frame)
next
  case False
  let ?ds = "mermaidElements doc"
  let ?s0 = "initMermaidWithTheme (getCurrentTheme doc) s"
  let ?s1 = "run e (refresh_loop ?ds 0 ?s0)"
  let ?t0 = "initMermaidWithTheme (getCurrentTheme doc) ?s1"
  have "erase (innerHTML (run e (refresh_loop ?ds 0 ?s0)) el) =
        erase (innerHTML (run e (refresh_loop ?ds 0 ?t0)) el)"
  proof (rule refresh_loop_equivalent)
    show "erase (markup_of (e cfg (render_id a b) code)) =
        erase (markup_of (e cfg (render_id a' b') code))" for cfg a b a' b' code
      using assms(1) by blast
    show "mermaidCodeMap ?s0 = mermaidCodeMap ?t0"
      by (simp add: initMermaidWithTheme_frame refresh_loop_frame)
    show "config ?s0 = config ?t0"
      by (simp add: config_initMermaidWithTheme)
    show "erase (innerHTML ?s0 x) = erase (innerHTML ?t0 x)"
      if "x \<notin> set (rendered (mermaidCodeMap ?s0) ?ds)" for x
      using refresh_loop_untouched [OF that, of e 0]
      by (simp add: initMermaidWithTheme_frame)
  qed
  with False assms(2,3) show ?thesis
    by (simp add: run_refresh)
qed

theorem refresh_twice_equivalent_witness:
  "(\<forall>cfg a b a' b' code.
      sample_erase (markup_of (sample_engine cfg (render_id a b) code)) =
      sample_erase (markup_of (sample_engine cfg (render_id a' b') code))) \<and>
   innerHTML (run sample_engine (reRenderMermaidDiagrams sample_rendered sample_loaded)) 100
     = ''default:graph TD; A-->B;#mermaid-1-0'' \<and>
   sample_erase (innerHTML (run sample_engine (reRenderMermaidDiagrams sample_rendered
       (run sample_engine (reRenderMermaidDiagrams sample_rendered sample_loaded)))) 100)
     = ''default:graph TD; A-->B;''"
proof -
  have engine: "\<forall>cfg a b a' b' code.
      sample_erase (markup_of (sample_engine cfg (render_id a b) code)) =
      sample_erase (markup_of (sample_engine cfg (render_id a' b') code))"
    using sample_engine_erase by blast
  have first: "innerHTML (run sample_engine (reRenderMermaidDiagrams sample_rendered sample_loaded)) 100
     = ''default:graph TD; A-->B;#mermaid-1-0''"
    by (simp add: run_refresh run_refresh_Cons refresh_item_fields registered_def source_in_def
      initMermaidWithTheme_frame config_initMermaidWithTheme getCurrentTheme_def sample_loaded_fields
      sample_rendered_def sample_document_def render_id_small
      sample_engine_def config_for_def error_markup_def)
  from refresh_twice_equivalent [OF engine refl refl, of sample_rendered sample_loaded 100]
  show ?thesis
    using engine by (simp add: first sample_erase_def)
qed

subsection \<open>C9: the observer of the theme attribute\<close>



subsection \<open>C10: when the counter is incremented\<close>

text \<open>
  C10: a refresh pass that finds no element of class \<open>mermaid\<close> returns early and leaves
  \<open>renderCount\<close> as it is; every other refresh pass, and every discovery pass, also one
  that finds no code block, increments it by one.
\<close>

theorem epoch_increment:
  "renderCount (run e (reRenderMermaidDiagrams doc s)) =
     (if mermaidElements doc = [] then renderCount s else renderCount s + 1) \<and>
   (mermaidElements doc = [] \<longrightarrow>
      reRenderMermaidDiagrams doc s = Finished (initMermaidWithTheme (getCurrentTheme doc) s)) \<and>
   renderCount (run e (renderMermaidDiagrams doc s)) = renderCount s + 1"
  by (simp add: run_refresh run_discovery refresh_loop_frame discovery_loop_frame
      initMermaidWithTheme_frame reRenderMermaidDiagrams_def)

theorem epoch_increment_witness:
  "renderCount (run sample_engine (reRenderMermaidDiagrams scenario_document fresh_page)) = 0 \<and>
   reRenderMermaidDiagrams scenario_document fresh_page =
     Finished (initMermaidWithTheme ''light'' fresh_page) \<and>
   renderCount (run sample_engine (reRenderMermaidDiagrams sample_rendered fresh_page)) = 1 \<and>
   renderCount (run sample_engine (renderMermaidDiagrams scenario_document fresh_page)) = 1"
proof -
  have none: "mermaidElements scenario_document = []"
    by (simp add: scenario_document_def)
  have some: "mermaidElements sample_rendered \<noteq> []"
    by (simp add: sample_rendered_def)
  have light: "getCurrentTheme scenario_document = ''light''"
    by (simp add: scenario_document_def getCurrentTheme_def)
  have zero: "renderCount fresh_page = 0"
    by (simp add: fresh_page_def)
  from epoch_increment [of sample_engine scenario_document fresh_page]
    epoch_increment [of sample_engine sample_rendered fresh_page]
  show ?thesis
    by (simp add: none some light zero initMermaidWithTheme_frame)
qed


end
